theory Spec2Isabelle
  imports Main "HOL-Library.Word"
begin

section \<open>Scope names (util/AccessorScope)\<close>

text \<open>
  A JavaScript string is a sequence of code units; a code unit is modelled by a
  \<^typ>\<open>char\<close>, a string by a \<^typ>\<open>string\<close>. The global object \<open>window\<close> is an
  association list from property names to host objects, in the order of
  \<open>Object.keys(window)\<close>; a name that is not bound reads as \<open>undefined\<close>, which is
  \<open>None\<close>.
\<close>

type_synonym 'o window = "(string \<times> 'o) list"

text \<open>\<open>ObjectScope = string | object\<close>.\<close>

datatype 'o ObjectScope = ScopeName string | ScopeObject 'o

text \<open>\<open>scope.replace(/[-.]/g, "_")\<close>: every match of the character class is replaced.\<close>

fun sanitizeScope :: "string \<Rightarrow> string" where
  "sanitizeScope [] = []"
| "sanitizeScope (c # cs) =
     (if c = CHR ''-'' \<or> c = CHR ''.'' then CHR ''_'' else c) # sanitizeScope cs"

text \<open>
  \<open>sanitizedModIdWithFile\<close>. The argument \<open>upper\<close> is the engine's
  \<open>String.prototype.toUpperCase\<close>, applied by the source to the one-unit string
  \<open>sanitized[0]\<close>.
\<close>

definition sanitizedModIdWithFile :: "(string \<Rightarrow> string) \<Rightarrow> string \<Rightarrow> string" where
  "sanitizedModIdWithFile upper scope =
     (let sanitized = sanitizeScope scope in
        (if length sanitized \<ge> 2 then upper [sanitized ! 0] @ [sanitized ! 1]
         else if length sanitized > 0 then upper [sanitized ! 0]
         else []) @ ''File'')"

definition parseFileScope :: "(string \<Rightarrow> string) \<Rightarrow> 'o window \<Rightarrow> 'o ObjectScope \<Rightarrow> 'o option" where
  "parseFileScope upper win scope =
     (case scope of
        ScopeName s \<Rightarrow> map_of win (CHR ''$'' # sanitizedModIdWithFile upper s)
      | ScopeObject ob \<Rightarrow> Some ob)"

definition parseScope :: "'o window \<Rightarrow> 'o ObjectScope \<Rightarrow> 'o option" where
  "parseScope win scope =
     (case scope of
        ScopeName s \<Rightarrow>
          (let sanitizedScope = map_of win (CHR ''$'' # sanitizeScope s);
               unsanitizedScope = map_of win (CHR ''$'' # s)
           in if sanitizedScope \<noteq> None then sanitizedScope else unsanitizedScope)
      | ScopeObject ob \<Rightarrow> Some ob)"

text \<open>The ASCII case mapping of \<open>toUpperCase\<close>, for evaluating concrete scopes.\<close>

definition asciiUpper :: "string \<Rightarrow> string" where
  "asciiUpper s =
     map (\<lambda>c. if 97 \<le> (of_char c :: nat) \<and> (of_char c :: nat) \<le> 122
              then char_of (of_char c - 32 :: nat) else c) s"

section \<open>JavaScript values, exceptions and host calls\<close>

text \<open>
  The values that cross the bridge between the page and the host, and the documents
  read from a JSON file. A host method exposed to the page returns a primitive or a
  string; \<open>Obj\<close> is a plain object with its own properties in insertion order, \<open>Arr\<close>
  an array, in which a missing element reads as \<open>undefined\<close> and is \<open>Undefined\<close>.
  Numbers are modelled by integers.
\<close>

datatype jsval =
    Undefined
  | Null
  | Bool bool
  | Num int
  | Str string
  | Arr "jsval list"
  | Obj "(string \<times> jsval) list"

text \<open>What a \<open>throw\<close> carries: the error class and its message.\<close>

datatype exn =
    ReferenceError string
  | TypeError string
  | RangeError string
  | Error string
  | AbortError string
  | SyntaxError string
  | HostException string

text \<open>The observable effects: a call of a host method, and the console.\<close>

datatype event =
    HostCall string "jsval list"
  | ConsoleWarn string
  | ConsoleError string exn

text \<open>
  A host object answers a method name and arguments from its state, with a value or an
  exception, and updates its state. A method the host version does not have answers
  with a \<open>TypeError\<close>.
\<close>

type_synonym 's host = "string \<Rightarrow> jsval list \<Rightarrow> 's \<Rightarrow> (exn + jsval) \<times> 's"

record 's world =
  host_state :: 's
  events :: "event list"

type_synonym ('s, 'a) js = "'s world \<Rightarrow> (exn + 'a) \<times> 's world"

definition quoted :: "string \<Rightarrow> string" where
  "quoted s = [CHR 0x27] @ s @ [CHR 0x27]"

text \<open>\<open>!v\<close> is \<open>\<not> truthy v\<close>.\<close>

fun truthy :: "jsval \<Rightarrow> bool" where
  "truthy Undefined = False"
| "truthy Null = False"
| "truthy (Bool b) = b"
| "truthy (Num n) = (n \<noteq> 0)"
| "truthy (Str s) = (s \<noteq> [])"
| "truthy (Arr xs) = True"
| "truthy (Obj ps) = True"

fun typeof :: "jsval \<Rightarrow> string" where
  "typeof Undefined = ''undefined''"
| "typeof Null = ''object''"
| "typeof (Bool b) = ''boolean''"
| "typeof (Num n) = ''number''"
| "typeof (Str s) = ''string''"
| "typeof (Arr xs) = ''object''"
| "typeof (Obj ps) = ''object''"

definition console_warn :: "string \<Rightarrow> 's world \<Rightarrow> 's world" where
  "console_warn msg w = w\<lparr>events := events w @ [ConsoleWarn msg]\<rparr>"

text \<open>The world after some warnings, and nothing else, have been logged.\<close>

definition warned :: "string list \<Rightarrow> 's world \<Rightarrow> 's world" where
  "warned msgs w = w\<lparr>events := events w @ map ConsoleWarn msgs\<rparr>"

definition console_error :: "string \<Rightarrow> exn \<Rightarrow> 's world \<Rightarrow> 's world" where
  "console_error msg e w = w\<lparr>events := events w @ [ConsoleError msg e]\<rparr>"

text \<open>
  \<open>ob.m(args)\<close> for a host object \<open>ob\<close> that may be \<open>undefined\<close>: on \<open>undefined\<close> the
  property read throws and the host is not reached.
\<close>

definition callOn :: "'s host option \<Rightarrow> string \<Rightarrow> jsval list \<Rightarrow> ('s, jsval) js" where
  "callOn ob m args w =
     (case ob of
        None \<Rightarrow> (Inl (TypeError (''Cannot read properties of undefined (reading '' @ quoted m @ '')'')), w)
      | Some h \<Rightarrow>
          (case h m args (host_state w) of
             (r, s') \<Rightarrow> (r, w\<lparr>host_state := s', events := events w @ [HostCall m args]\<rparr>)))"

text \<open>\<open>ob.m1().m2()\<close>: the second call is made on what the first returns.\<close>

definition callChain :: "'s host option \<Rightarrow> string \<Rightarrow> string \<Rightarrow> ('s, jsval) js" where
  "callChain ob m1 m2 w =
     (case callOn ob m1 [] w of
        (Inl e, w') \<Rightarrow> (Inl e, w')
      | (Inr cfg, w') \<Rightarrow>
          (if cfg = Undefined \<or> cfg = Null
           then (Inl (TypeError (''Cannot read properties of undefined (reading '' @ quoted m2 @ '')'')), w')
           else callOn ob (m1 @ ''().'' @ m2) [] w'))"

text \<open>A call whose result the caller drops (a \<open>void\<close> method).\<close>

definition callVoid :: "'s host option \<Rightarrow> string \<Rightarrow> jsval list \<Rightarrow> ('s, jsval) js" where
  "callVoid ob m args w =
     (case callOn ob m args w of
        (Inl e, w') \<Rightarrow> (Inl e, w')
      | (Inr r, w') \<Rightarrow> (Inr Undefined, w'))"

section \<open>The generic host-object accessor (classes/MMRLObjectAccessor)\<close>

text \<open>
  The accessor holds the host object found at construction, or \<open>undefined\<close>, together
  with what it reads from the page: the user agent of the browsing context, the fixed
  signature string \<open>Const.mmrlUserAgent\<close>, and the version code the host reports.
  \<open>versionWarning\<close> is the text of the warning for a required version that is not met.
\<close>

record 's accessor =
  userAgent :: string
  mmrlUserAgent :: string
  interface :: "'s host option"
  reportedVersionCode :: int
  versionWarning :: "int \<Rightarrow> string"
  parseJSON :: "jsval \<Rightarrow> exn + jsval"

text \<open>
  Modelled from the spec: the getter \<open>isMMRL\<close> of \<open>MMRLObjectAccessor\<close>, a class whose
  source is missing. The spec: the accessor "exposes whether the current
  execution context is recognized as the expected host (by comparing a fixed signature
  string)"; the decorator \<open>NativeProperty\<close> makes the same comparison,
  \<open>Const.mmrlUserAgent === window.navigator.userAgent\<close>.
\<close>

definition isMMRL :: "'s accessor \<Rightarrow> bool" where
  "isMMRL acc = (mmrlUserAgent acc = userAgent acc)"

text \<open>
  Modelled from the spec: the method \<open>hasRequiredVersion\<close> of \<open>MMRLObjectAccessor\<close>,
  a class whose source is missing. The spec: the accessor exposes "whether the host's
  reported version meets a caller-supplied minimum", and "version-gated methods no-op
  (and log a warning) when the host-reported version code is below the required
  threshold". The methods of \<open>Toast\<close> and \<open>MMRLInterface\<close> return on a failed check
  without a log of their own, so the warning is the method's: \<open>hasRequiredVersion\<close> is
  the value the call returns, \<open>versionChecked\<close> the world after the call, with the
  warning on the console when the version is not met.
\<close>

definition hasRequiredVersion :: "'s accessor \<Rightarrow> int \<Rightarrow> bool" where
  "hasRequiredVersion acc requiredVersion = (requiredVersion \<le> reportedVersionCode acc)"

definition versionChecked :: "'s accessor \<Rightarrow> int \<Rightarrow> 's world \<Rightarrow> 's world" where
  "versionChecked acc requiredVersion w =
     (if hasRequiredVersion acc requiredVersion then w
      else console_warn (versionWarning acc requiredVersion) w)"

section \<open>The filesystem accessor (classes/FileSystem)\<close>

text \<open>
  \<open>FileSystem\<close> extends the generic accessor and adds no field of its own but the
  constant \<open>advancedFsOperations\<close>; \<open>this\<close> is the accessor. A method takes the world
  and returns its value, or the exception it lets escape, with the world after it.
  Optional parameters take their defaults at the call site (\<open>bytes = false\<close>,
  \<open>delimiter = ","\<close>, \<open>recursive = false\<close>, \<open>total = false\<close>, \<open>overwrite = false\<close>).
\<close>

definition FileSystem_new ::
  "(string \<Rightarrow> string) \<Rightarrow> 's host window \<Rightarrow> 's accessor \<Rightarrow> 's host ObjectScope \<Rightarrow> 's accessor" where
  "FileSystem_new upper win super scope = super\<lparr>interface := parseFileScope upper win scope\<rparr>"

definition advancedFsOperations :: int where
  "advancedFsOperations = 33162"

definition FileSystem_read :: "'s accessor \<Rightarrow> string \<Rightarrow> bool \<Rightarrow> ('s, jsval) js" where
  "FileSystem_read this path bytes w =
     (if \<not> isMMRL this then (Inr Null, w)
      else callOn (interface this) ''read'' [Str path, Bool bytes] w)"

definition FileSystem_write :: "'s accessor \<Rightarrow> string \<Rightarrow> string \<Rightarrow> ('s, jsval) js" where
  "FileSystem_write this path data w =
     (if isMMRL this
      then callVoid (interface this) ''write'' [Str path, Str data] w
      else (Inr Undefined, w))"

definition FileSystem_readAsBase64 :: "'s accessor \<Rightarrow> string \<Rightarrow> ('s, jsval) js" where
  "FileSystem_readAsBase64 this path w =
     (if isMMRL this then callOn (interface this) ''readAsBase64'' [Str path] w
      else (Inr Null, w))"

definition FileSystem_list :: "'s accessor \<Rightarrow> string \<Rightarrow> string \<Rightarrow> ('s, jsval) js" where
  "FileSystem_list this path delimiter w =
     (if isMMRL this then callOn (interface this) ''list'' [Str path, Str delimiter] w
      else (Inr Null, w))"

definition FileSystem_size :: "'s accessor \<Rightarrow> string \<Rightarrow> bool \<Rightarrow> ('s, jsval) js" where
  "FileSystem_size this path recursive w =
     (if isMMRL this then callOn (interface this) ''size'' [Str path, Bool recursive] w
      else (Inr (Num 0), w))"

definition FileSystem_stat :: "'s accessor \<Rightarrow> string \<Rightarrow> bool \<Rightarrow> ('s, jsval) js" where
  "FileSystem_stat this path totl w =
     (if isMMRL this then callOn (interface this) ''stat'' [Str path, Bool totl] w
      else (Inr (Num 0), w))"

definition FileSystem_delete :: "'s accessor \<Rightarrow> string \<Rightarrow> ('s, jsval) js" where
  "FileSystem_delete this path w =
     (if isMMRL this then callOn (interface this) ''delete'' [Str path] w
      else (Inr (Bool False), w))"

definition FileSystem_exists :: "'s accessor \<Rightarrow> string \<Rightarrow> ('s, jsval) js" where
  "FileSystem_exists this path w =
     (if isMMRL this then callOn (interface this) ''exists'' [Str path] w
      else (Inr (Bool False), w))"

definition FileSystem_unsupportedWarning :: "string \<Rightarrow> ('s, jsval) js" where
  "FileSystem_unsupportedWarning method w =
     (Inr (Bool False), console_warn (quoted method @ '' is not supported on this version'') w)"

definition FileSystem_isDirectory :: "'s accessor \<Rightarrow> string \<Rightarrow> ('s, jsval) js" where
  "FileSystem_isDirectory this path w =
     (if \<not> isMMRL this then (Inr (Bool False), w)
      else if \<not> hasRequiredVersion this advancedFsOperations
        then FileSystem_unsupportedWarning ''isDirectroy''
               (versionChecked this advancedFsOperations w)
      else callOn (interface this) ''isDirectory'' [Str path]
             (versionChecked this advancedFsOperations w))"

definition FileSystem_isFile :: "'s accessor \<Rightarrow> string \<Rightarrow> ('s, jsval) js" where
  "FileSystem_isFile this path w =
     (if \<not> isMMRL this then (Inr (Bool False), w)
      else if \<not> hasRequiredVersion this advancedFsOperations
        then FileSystem_unsupportedWarning ''isFile''
               (versionChecked this advancedFsOperations w)
      else callOn (interface this) ''isFile'' [Str path]
             (versionChecked this advancedFsOperations w))"

definition FileSystem_mkdir :: "'s accessor \<Rightarrow> string \<Rightarrow> ('s, jsval) js" where
  "FileSystem_mkdir this path w =
     (if \<not> isMMRL this then (Inr (Bool False), w)
      else if \<not> hasRequiredVersion this advancedFsOperations
        then FileSystem_unsupportedWarning ''mkdir''
               (versionChecked this advancedFsOperations w)
      else callOn (interface this) ''mkdir'' [Str path]
             (versionChecked this advancedFsOperations w))"

definition FileSystem_mkdirs :: "'s accessor \<Rightarrow> string \<Rightarrow> ('s, jsval) js" where
  "FileSystem_mkdirs this path w =
     (if \<not> isMMRL this then (Inr (Bool False), w)
      else if \<not> hasRequiredVersion this advancedFsOperations
        then FileSystem_unsupportedWarning ''mkdirs''
               (versionChecked this advancedFsOperations w)
      else callOn (interface this) ''mkdirs'' [Str path]
             (versionChecked this advancedFsOperations w))"

definition FileSystem_createNewFile :: "'s accessor \<Rightarrow> string \<Rightarrow> ('s, jsval) js" where
  "FileSystem_createNewFile this path w =
     (if \<not> isMMRL this then (Inr (Bool False), w)
      else if \<not> hasRequiredVersion this advancedFsOperations
        then FileSystem_unsupportedWarning ''createNewFile''
               (versionChecked this advancedFsOperations w)
      else callOn (interface this) ''createNewFile'' [Str path]
             (versionChecked this advancedFsOperations w))"

definition FileSystem_renameTo :: "'s accessor \<Rightarrow> string \<Rightarrow> string \<Rightarrow> ('s, jsval) js" where
  "FileSystem_renameTo this target dest w =
     (if \<not> isMMRL this then (Inr (Bool False), w)
      else if \<not> hasRequiredVersion this advancedFsOperations
        then FileSystem_unsupportedWarning ''renameTo''
               (versionChecked this advancedFsOperations w)
      else callOn (interface this) ''renameTo'' [Str target, Str dest]
             (versionChecked this advancedFsOperations w))"

definition FileSystem_copyTo :: "'s accessor \<Rightarrow> string \<Rightarrow> string \<Rightarrow> bool \<Rightarrow> ('s, jsval) js" where
  "FileSystem_copyTo this target dest overwrite w =
     (if \<not> isMMRL this then (Inr (Bool False), w)
      else if \<not> hasRequiredVersion this advancedFsOperations
        then FileSystem_unsupportedWarning ''copyTo''
               (versionChecked this advancedFsOperations w)
      else callOn (interface this) ''copyTo'' [Str target, Str dest, Bool overwrite]
             (versionChecked this advancedFsOperations w))"

definition FileSystem_canExecute :: "'s accessor \<Rightarrow> string \<Rightarrow> ('s, jsval) js" where
  "FileSystem_canExecute this path w =
     (if \<not> isMMRL this then (Inr (Bool False), w)
      else if \<not> hasRequiredVersion this advancedFsOperations
        then FileSystem_unsupportedWarning ''canExecute''
               (versionChecked this advancedFsOperations w)
      else callOn (interface this) ''canExecute'' [Str path]
             (versionChecked this advancedFsOperations w))"

definition FileSystem_canRead :: "'s accessor \<Rightarrow> string \<Rightarrow> ('s, jsval) js" where
  "FileSystem_canRead this path w =
     (if \<not> isMMRL this then (Inr (Bool False), w)
      else if \<not> hasRequiredVersion this advancedFsOperations
        then FileSystem_unsupportedWarning ''canRead''
               (versionChecked this advancedFsOperations w)
      else callOn (interface this) ''canRead'' [Str path]
             (versionChecked this advancedFsOperations w))"

definition FileSystem_isHidden :: "'s accessor \<Rightarrow> string \<Rightarrow> ('s, jsval) js" where
  "FileSystem_isHidden this path w =
     (if \<not> isMMRL this then (Inr (Bool False), w)
      else if \<not> hasRequiredVersion this advancedFsOperations
        then FileSystem_unsupportedWarning ''isHidden''
               (versionChecked this advancedFsOperations w)
      else callOn (interface this) ''isHidden'' [Str path]
             (versionChecked this advancedFsOperations w))"

section \<open>The application accessor (classes/MMRLInterface)\<close>

definition MMRLInterface_new ::
  "'s host window \<Rightarrow> 's accessor \<Rightarrow> 's host ObjectScope \<Rightarrow> bool \<Rightarrow> 's accessor" where
  "MMRLInterface_new win super scope noScopeParse =
     super\<lparr>interface :=
       (if noScopeParse
        then (case scope of
                ScopeName s \<Rightarrow> map_of win (CHR ''$'' # s)
              | ScopeObject ob \<Rightarrow> map_of win ''$[object Object]'')
        else parseScope win scope)\<rparr>"

definition MMRLInterface_manager :: "'s accessor \<Rightarrow> ('s, jsval) js" where
  "MMRLInterface_manager this w =
     (if \<not> isMMRL this then (Inr Null, w)
      else (case callOn (interface this) ''getManager'' [] w of
              (Inl e, w') \<Rightarrow> (Inl e, w')
            | (Inr r, w') \<Rightarrow> (parseJSON this r, w')))"

definition MMRLInterface_mmrl :: "'s accessor \<Rightarrow> ('s, jsval) js" where
  "MMRLInterface_mmrl this w =
     (if \<not> isMMRL this then (Inr Null, w)
      else (case callOn (interface this) ''getMmrl'' [] w of
              (Inl e, w') \<Rightarrow> (Inl e, w')
            | (Inr r, w') \<Rightarrow> (parseJSON this r, w')))"

definition MMRLInterface_hasAccessToFileSystem :: "'s accessor \<Rightarrow> ('s, jsval) js" where
  "MMRLInterface_hasAccessToFileSystem this w =
     (if \<not> isMMRL this then (Inr (Bool False), w)
      else callOn (interface this) ''getHasAccessToFileSystem'' [] w)"

definition MMRLInterface_hasAccessToAdvancedKernelSuAPI :: "'s accessor \<Rightarrow> ('s, jsval) js" where
  "MMRLInterface_hasAccessToAdvancedKernelSuAPI this w =
     (if \<not> isMMRL this then (Inr (Bool True), w)
      else callOn (interface this) ''getHasAccessToAdvancedKernelSuAPI'' [] w)"

definition MMRLInterface_windowTopInset :: "'s accessor \<Rightarrow> ('s, jsval) js" where
  "MMRLInterface_windowTopInset this w =
     (if \<not> isMMRL this then (Inr (Num 0), w)
      else callOn (interface this) ''getWindowTopInset'' [] w)"

definition MMRLInterface_windowBottomInset :: "'s accessor \<Rightarrow> ('s, jsval) js" where
  "MMRLInterface_windowBottomInset this w =
     (if \<not> isMMRL this then (Inr (Num 0), w)
      else callOn (interface this) ''getWindowBottomInset'' [] w)"

definition MMRLInterface_lightNavigationBars :: "'s accessor \<Rightarrow> ('s, jsval) js" where
  "MMRLInterface_lightNavigationBars this w =
     (if \<not> isMMRL this then (Inr (Bool False), w)
      else callOn (interface this) ''isLightNavigationBars'' [] w)"

definition MMRLInterface_darkMode :: "'s accessor \<Rightarrow> ('s, jsval) js" where
  "MMRLInterface_darkMode this w =
     (if \<not> isMMRL this then (Inr (Bool False), w)
      else callOn (interface this) ''isDarkMode'' [] w)"

definition MMRLInterface_lightStatusBars :: "'s accessor \<Rightarrow> ('s, jsval) js" where
  "MMRLInterface_lightStatusBars this w =
     (if \<not> isMMRL this then (Inr (Bool False), w)
      else callOn (interface this) ''isLightStatusBars'' [] w)"

definition MMRLInterface_sdk :: "'s accessor \<Rightarrow> ('s, jsval) js" where
  "MMRLInterface_sdk this w =
     (if \<not> isMMRL this then (Inr (Num (- 1)), w)
      else callOn (interface this) ''getSdk'' [] w)"

definition MMRLInterface_set_lightNavigationBars :: "'s accessor \<Rightarrow> bool \<Rightarrow> ('s, jsval) js" where
  "MMRLInterface_set_lightNavigationBars this light w =
     (if \<not> isMMRL this then (Inr Undefined, w)
      else callVoid (interface this) ''setLightNavigationBars'' [Bool light] w)"

definition MMRLInterface_set_lightStatusBars :: "'s accessor \<Rightarrow> bool \<Rightarrow> ('s, jsval) js" where
  "MMRLInterface_set_lightStatusBars this light w =
     (if \<not> isMMRL this then (Inr Undefined, w)
      else callVoid (interface this) ''setLightStatusBars'' [Bool light] w)"

text \<open>\<open>shareText(text, type?)\<close>: \<open>None\<close> is the omitted MIME type.\<close>

definition MMRLInterface_shareText :: "'s accessor \<Rightarrow> string \<Rightarrow> string option \<Rightarrow> ('s, jsval) js" where
  "MMRLInterface_shareText this text type w =
     (if \<not> isMMRL this then (Inr Undefined, w)
      else (case type of
              None \<Rightarrow> callVoid (interface this) ''shareText'' [Str text] w
            | Some t \<Rightarrow> callVoid (interface this) ''shareText'' [Str text, Str t] w))"

definition requireVersionNewAPIs :: int where
  "requireVersionNewAPIs = 33045"

definition MMRLInterface_requestAdvancedKernelSUAPI :: "'s accessor \<Rightarrow> ('s, jsval) js" where
  "MMRLInterface_requestAdvancedKernelSUAPI this w =
     (if \<not> isMMRL this then (Inr Undefined, w)
      else if \<not> hasRequiredVersion this requireVersionNewAPIs
        then (Inr Undefined, versionChecked this requireVersionNewAPIs w)
      else callVoid (interface this) ''requestAdvancedKernelSUAPI'' []
             (versionChecked this requireVersionNewAPIs w))"

definition MMRLInterface_requestFileSystemAPI :: "'s accessor \<Rightarrow> ('s, jsval) js" where
  "MMRLInterface_requestFileSystemAPI this w =
     (if \<not> isMMRL this then (Inr Undefined, w)
      else if \<not> hasRequiredVersion this requireVersionNewAPIs
        then (Inr Undefined, versionChecked this requireVersionNewAPIs w)
      else callVoid (interface this) ''requestFileSystemAPI'' []
             (versionChecked this requireVersionNewAPIs w))"

section \<open>The version accessor (classes/VersionInterface)\<close>

text \<open>Both sentinels of the class are the number \<open>-1\<close>.\<close>

definition defaultNumber :: jsval where
  "defaultNumber = Num (- 1)"

definition defaultString :: jsval where
  "defaultString = Num (- 1)"

definition VersionInterface_versionCode :: "'s accessor \<Rightarrow> ('s, jsval) js" where
  "VersionInterface_versionCode this w =
     (if \<not> isMMRL this \<or> interface this = None then (Inr defaultNumber, w)
      else callChain (interface this) ''getBuildConfig'' ''getVersionCode'' w)"

definition VersionInterface_versionName :: "'s accessor \<Rightarrow> ('s, jsval) js" where
  "VersionInterface_versionName this w =
     (if \<not> isMMRL this \<or> interface this = None then (Inr defaultString, w)
      else callChain (interface this) ''getBuildConfig'' ''getVersionName'' w)"

definition VersionInterface_applicationId :: "'s accessor \<Rightarrow> ('s, jsval) js" where
  "VersionInterface_applicationId this w =
     (if \<not> isMMRL this \<or> interface this = None then (Inr defaultString, w)
      else callChain (interface this) ''getBuildConfig'' ''getApplicationId'' w)"

definition VersionInterface_buildType :: "'s accessor \<Rightarrow> ('s, jsval) js" where
  "VersionInterface_buildType this w =
     (if \<not> isMMRL this \<or> interface this = None then (Inr defaultString, w)
      else callChain (interface this) ''getBuildConfig'' ''getBuildType'' w)"

definition VersionInterface_isDevVersion :: "'s accessor \<Rightarrow> ('s, jsval) js" where
  "VersionInterface_isDevVersion this w =
     (if \<not> isMMRL this \<or> interface this = None then (Inr (Bool False), w)
      else callChain (interface this) ''getBuildConfig'' ''isDevVersion'' w)"

definition VersionInterface_isGooglePlayBuild :: "'s accessor \<Rightarrow> ('s, jsval) js" where
  "VersionInterface_isGooglePlayBuild this w =
     (if \<not> isMMRL this \<or> interface this = None then (Inr (Bool False), w)
      else callChain (interface this) ''getBuildConfig'' ''isGooglePlayBuild'' w)"

definition VersionInterface_platform :: "'s accessor \<Rightarrow> ('s, jsval) js" where
  "VersionInterface_platform this w =
     (if \<not> isMMRL this \<or> interface this = None then (Inr defaultString, w)
      else callChain (interface this) ''getRootConfig'' ''getPlatform'' w)"

definition VersionInterface_rootVersionCode :: "'s accessor \<Rightarrow> ('s, jsval) js" where
  "VersionInterface_rootVersionCode this w =
     (if \<not> isMMRL this \<or> interface this = None then (Inr defaultNumber, w)
      else callChain (interface this) ''getRootConfig'' ''getVersionCode'' w)"

definition VersionInterface_rootVersionName :: "'s accessor \<Rightarrow> ('s, jsval) js" where
  "VersionInterface_rootVersionName this w =
     (if \<not> isMMRL this \<or> interface this = None then (Inr defaultString, w)
      else callChain (interface this) ''getRootConfig'' ''getVersionName'' w)"

section \<open>The toast accessor (classes/Toast)\<close>

text \<open>
  \<open>toastBuilder\<close> is what the host's \<open>toastBuilder()\<close> returned at construction, or
  \<open>undefined\<close>; its methods are host methods. A method returns the toast after it, as
  \<open>setDuration\<close> assigns a field. Arguments are arbitrary values: the methods test
  their types at run time. A method that throws returns no toast: \<open>setDuration\<close> has
  then assigned the field \<open>duration\<close> already, which nothing reads afterwards.
\<close>

record 's Toast =
  toast_super :: "'s accessor"
  toastBuilder :: jsval
  duration :: int

definition LENGTH_SHORT :: int where
  "LENGTH_SHORT = 0"

definition LENGTH_LONG :: int where
  "LENGTH_LONG = 1"

definition Toast_requireVersion :: int where
  "Toast_requireVersion = 33049"

definition Toast_new :: "'s accessor \<Rightarrow> ('s, 's Toast) js" where
  "Toast_new super w =
     (let this = \<lparr>toast_super = super, toastBuilder = Undefined, duration = LENGTH_SHORT\<rparr> in
      if interface super = None then (Inr this, w)
      else (case callOn (interface super) ''toastBuilder'' [] w of
              (Inl e, w') \<Rightarrow> (Inl e, w')
            | (Inr b, w') \<Rightarrow> (Inr (this\<lparr>toastBuilder := b\<rparr>), w')))"

definition Toast_setText :: "'s Toast \<Rightarrow> jsval \<Rightarrow> ('s, 's Toast) js" where
  "Toast_setText this text w =
     (if \<not> isMMRL (toast_super this) \<or> \<not> truthy (toastBuilder this) then (Inr this, w)
      else (let w1 = versionChecked (toast_super this) Toast_requireVersion w in
          if \<not> hasRequiredVersion (toast_super this) Toast_requireVersion then (Inr this, w1)
          else if typeof text \<noteq> ''string'' then (Inl (TypeError ''Text must be a string''), w1)
          else (case callOn (interface (toast_super this)) ''toastBuilder().setText'' [text] w1 of
                  (Inl e, w') \<Rightarrow> (Inl e, w')
                | (Inr r, w') \<Rightarrow> (Inr (this), w'))))"

definition Toast_setDuration :: "'s Toast \<Rightarrow> jsval \<Rightarrow> ('s, 's Toast) js" where
  "Toast_setDuration this dur w =
     (if \<not> isMMRL (toast_super this) \<or> \<not> truthy (toastBuilder this) then (Inr this, w)
      else (let w1 = versionChecked (toast_super this) Toast_requireVersion w in
          if \<not> hasRequiredVersion (toast_super this) Toast_requireVersion then (Inr this, w1)
          else if typeof dur \<noteq> ''number'' then (Inl (TypeError ''Duration must be a number''), w1)
          else if dur \<noteq> Num LENGTH_SHORT \<and> dur \<noteq> Num LENGTH_LONG then (Inl (Error ''Invalid duration''), w1)
          else (case callOn (interface (toast_super this)) ''toastBuilder().setDuration'' [dur] w1 of
                  (Inl e, w') \<Rightarrow> (Inl e, w')
                | (Inr r, w') \<Rightarrow> (Inr (this\<lparr>duration := (case dur of Num n \<Rightarrow> n | _ \<Rightarrow> duration this)\<rparr>), w'))))"

definition Toast_setGravity :: "'s Toast \<Rightarrow> jsval \<Rightarrow> jsval \<Rightarrow> jsval \<Rightarrow> ('s, 's Toast) js" where
  "Toast_setGravity this gravity xOffset yOffset w =
     (if \<not> isMMRL (toast_super this) \<or> \<not> truthy (toastBuilder this) then (Inr this, w)
      else (let w1 = versionChecked (toast_super this) Toast_requireVersion w in
          if \<not> hasRequiredVersion (toast_super this) Toast_requireVersion then (Inr this, w1)
          else if typeof gravity \<noteq> ''number'' then (Inl (TypeError ''Gravity must be a number''), w1)
          else if typeof xOffset \<noteq> ''number'' then (Inl (TypeError ''X offset must be a number''), w1)
          else if typeof yOffset \<noteq> ''number'' then (Inl (TypeError ''Y offset must be a number''), w1)
          else (case callOn (interface (toast_super this)) ''toastBuilder().setGravity'' [gravity, xOffset, yOffset] w1 of
                  (Inl e, w') \<Rightarrow> (Inl e, w')
                | (Inr r, w') \<Rightarrow> (Inr (this), w'))))"

definition Toast_show :: "'s Toast \<Rightarrow> ('s, 's Toast) js" where
  "Toast_show this w =
     (if \<not> isMMRL (toast_super this) \<or> \<not> truthy (toastBuilder this) then (Inr this, w)
      else (let w1 = versionChecked (toast_super this) Toast_requireVersion w in
          if \<not> hasRequiredVersion (toast_super this) Toast_requireVersion then (Inr this, w1)
          else (case callOn (interface (toast_super this)) ''toastBuilder().show'' [] w1 of
                  (Inl e, w') \<Rightarrow> (Inl e, w')
                | (Inr r, w') \<Rightarrow> (Inr (this), w'))))"

definition Toast_cancel :: "'s Toast \<Rightarrow> ('s, 's Toast) js" where
  "Toast_cancel this w =
     (if \<not> isMMRL (toast_super this) \<or> \<not> truthy (toastBuilder this) then (Inr this, w)
      else (let w1 = versionChecked (toast_super this) Toast_requireVersion w in
          if \<not> hasRequiredVersion (toast_super this) Toast_requireVersion then (Inr this, w1)
          else (case callOn (interface (toast_super this)) ''toastBuilder().cancel'' [] w1 of
                  (Inl e, w') \<Rightarrow> (Inl e, w')
                | (Inr r, w') \<Rightarrow> (Inr (this), w'))))"

definition Toast_makeText :: "'s accessor \<Rightarrow> jsval \<Rightarrow> jsval \<Rightarrow> ('s, 's Toast) js" where
  "Toast_makeText super text dur w =
     (case Toast_new super w of
        (Inl e, w1) \<Rightarrow> (Inl e, w1)
      | (Inr toast, w1) \<Rightarrow>
          (case Toast_setText toast text w1 of
             (Inl e, w2) \<Rightarrow> (Inl e, w2)
           | (Inr toast2, w2) \<Rightarrow> Toast_setDuration toast2 dur w2))"

section \<open>The file accessor (classes/SuFile)\<close>

text \<open>
  The pattern \<open>/^\$(\w{2})FileInputStream$/m\<close>, tested by \<open>key.match\<close>. With the flag
  \<open>m\<close> the anchors also match after and before a line terminator.
\<close>

definition isWordChar :: "char \<Rightarrow> bool" where
  "isWordChar c =
     (let n = (of_char c :: nat) in
      (48 \<le> n \<and> n \<le> 57) \<or> (65 \<le> n \<and> n \<le> 90) \<or> n = 95 \<or> (97 \<le> n \<and> n \<le> 122))"

definition isLineTerminator :: "char \<Rightarrow> bool" where
  "isLineTerminator c = (c = CHR 0x0A \<or> c = CHR 0x0D)"

definition matchHere :: "string \<Rightarrow> bool" where
  "matchHere s =
     (case s of
        d # a # b # rest \<Rightarrow>
          d = CHR ''$'' \<and> isWordChar a \<and> isWordChar b
          \<and> take 15 rest = ''FileInputStream''
          \<and> (case drop 15 rest of [] \<Rightarrow> True | c # cs \<Rightarrow> isLineTerminator c)
      | _ \<Rightarrow> False)"

fun matchFrom :: "bool \<Rightarrow> string \<Rightarrow> bool" where
  "matchFrom lineStart [] = False"
| "matchFrom lineStart (c # cs) =
     ((lineStart \<and> matchHere (c # cs)) \<or> matchFrom (isLineTerminator c) cs)"

definition matchesFileInputStream :: "string \<Rightarrow> bool" where
  "matchesFileInputStream key = matchFrom True key"

text \<open>\<open>Object.keys(window).find(key => key.match(...))\<close>.\<close>

definition findInterface :: "'o window \<Rightarrow> string option" where
  "findInterface win = find matchesFileInputStream (map fst win)"

record 's SuFile =
  sf_path :: string
  sf_interface :: string
  sf_fileInterface :: "'s host option"

definition SuFile_new :: "'s host window \<Rightarrow> string \<Rightarrow> exn + 's SuFile" where
  "SuFile_new win path =
     (case findInterface win of
        None \<Rightarrow> Inl (ReferenceError ''Unable to find a interface SuFile'')
      | Some key \<Rightarrow>
          (if key = [] then Inl (ReferenceError ''Unable to find a interface SuFile'')
           else Inr \<lparr>sf_path = path, sf_interface = key, sf_fileInterface = map_of win key\<rparr>))"

definition SuFile_try :: "jsval \<Rightarrow> ('s, jsval) js \<Rightarrow> string \<Rightarrow> ('s, jsval) js" where
  "SuFile_try fallback fn errorMsg w =
     (case fn w of
        (Inr v, w') \<Rightarrow> (Inr v, w')
      | (Inl error, w') \<Rightarrow> (Inr fallback, console_error (errorMsg @ '':'') error w'))"

definition SuFile_read :: "'s SuFile \<Rightarrow> ('s, jsval) js" where
  "SuFile_read this =
     SuFile_try Null (callOn (sf_fileInterface this) ''read'' [Str (sf_path this)])
       (''Error while reading from '' @ quoted (sf_path this))"

definition SuFile_write :: "'s SuFile \<Rightarrow> string \<Rightarrow> ('s, jsval) js" where
  "SuFile_write this data =
     SuFile_try (Bool False) (callOn (sf_fileInterface this) ''write'' [Str (sf_path this), Str data])
       (''Error while writing to '' @ quoted (sf_path this))"

definition SuFile_readAsBase64 :: "'s SuFile \<Rightarrow> ('s, jsval) js" where
  "SuFile_readAsBase64 this =
     SuFile_try Null (callOn (sf_fileInterface this) ''readAsBase64'' [Str (sf_path this)])
       (''Error while reading '' @ quoted (sf_path this) @ '' as base64'')"

definition SuFile_list :: "'s SuFile \<Rightarrow> string \<Rightarrow> ('s, jsval) js" where
  "SuFile_list this delimiter =
     SuFile_try (Str ''[]'') (callOn (sf_fileInterface this) ''list'' [Str (sf_path this), Str delimiter])
       (''Error while listing '' @ quoted (sf_path this))"

definition SuFile_size :: "'s SuFile \<Rightarrow> bool \<Rightarrow> ('s, jsval) js" where
  "SuFile_size this recursive =
     SuFile_try (Num 0) (callOn (sf_fileInterface this) ''size'' [Str (sf_path this), Bool recursive])
       (''Error while getting size of '' @ quoted (sf_path this))"

definition SuFile_delete :: "'s SuFile \<Rightarrow> ('s, jsval) js" where
  "SuFile_delete this =
     SuFile_try (Bool False) (callOn (sf_fileInterface this) ''delete'' [Str (sf_path this)])
       (''Error while deleting '' @ quoted (sf_path this))"

definition SuFile_exists :: "'s SuFile \<Rightarrow> ('s, jsval) js" where
  "SuFile_exists this =
     SuFile_try (Bool False) (callOn (sf_fileInterface this) ''exists'' [Str (sf_path this)])
       (''Error while checking existence of '' @ quoted (sf_path this))"

definition SuFile_isDirectory :: "'s SuFile \<Rightarrow> ('s, jsval) js" where
  "SuFile_isDirectory this =
     SuFile_try (Bool False) (callOn (sf_fileInterface this) ''isDirectory'' [Str (sf_path this)])
       (''Error while checking if '' @ quoted (sf_path this) @ '' is a directory'')"

definition SuFile_isFile :: "'s SuFile \<Rightarrow> ('s, jsval) js" where
  "SuFile_isFile this =
     SuFile_try (Bool False) (callOn (sf_fileInterface this) ''isFile'' [Str (sf_path this)])
       (''Error while checking if '' @ quoted (sf_path this) @ '' is a file'')"

definition SuFile_isSymLink :: "'s SuFile \<Rightarrow> ('s, jsval) js" where
  "SuFile_isSymLink this =
     SuFile_try (Bool False) (callOn (sf_fileInterface this) ''isSymLink'' [Str (sf_path this)])
       (''Error while checking if '' @ quoted (sf_path this) @ '' is a symbolic link'')"

definition SuFile_mkdir :: "'s SuFile \<Rightarrow> ('s, jsval) js" where
  "SuFile_mkdir this =
     SuFile_try (Bool False) (callOn (sf_fileInterface this) ''mkdir'' [Str (sf_path this)])
       (''Error while creating directory '' @ quoted (sf_path this))"

definition SuFile_mkdirs :: "'s SuFile \<Rightarrow> ('s, jsval) js" where
  "SuFile_mkdirs this =
     SuFile_try (Bool False) (callOn (sf_fileInterface this) ''mkdirs'' [Str (sf_path this)])
       (''Error while creating directories '' @ quoted (sf_path this))"

definition SuFile_createNewFile :: "'s SuFile \<Rightarrow> ('s, jsval) js" where
  "SuFile_createNewFile this =
     SuFile_try (Bool False) (callOn (sf_fileInterface this) ''createNewFile'' [Str (sf_path this)])
       (''Error while creating file '' @ quoted (sf_path this))"

definition SuFile_renameTo :: "'s SuFile \<Rightarrow> string \<Rightarrow> ('s, jsval) js" where
  "SuFile_renameTo this destPath =
     SuFile_try (Bool False) (callOn (sf_fileInterface this) ''renameTo'' [Str (sf_path this), Str destPath])
       (''Error while renaming '' @ quoted (sf_path this) @ '' to '' @ quoted destPath)"

definition SuFile_copyTo :: "'s SuFile \<Rightarrow> string \<Rightarrow> bool \<Rightarrow> ('s, jsval) js" where
  "SuFile_copyTo this targetPath overwrite =
     SuFile_try (Bool False) (callOn (sf_fileInterface this) ''copyTo'' [Str (sf_path this), Str targetPath, Bool overwrite])
       (''Error while copying '' @ quoted (sf_path this) @ '' to '' @ quoted targetPath)"

definition SuFile_canExecute :: "'s SuFile \<Rightarrow> ('s, jsval) js" where
  "SuFile_canExecute this =
     SuFile_try (Bool False) (callOn (sf_fileInterface this) ''canExecute'' [Str (sf_path this)])
       (''Error while checking if '' @ quoted (sf_path this) @ '' can be executed'')"

definition SuFile_canWrite :: "'s SuFile \<Rightarrow> ('s, jsval) js" where
  "SuFile_canWrite this =
     SuFile_try (Bool False) (callOn (sf_fileInterface this) ''canWrite'' [Str (sf_path this)])
       (''Error while checking if '' @ quoted (sf_path this) @ '' can be written'')"

definition SuFile_canRead :: "'s SuFile \<Rightarrow> ('s, jsval) js" where
  "SuFile_canRead this =
     SuFile_try (Bool False) (callOn (sf_fileInterface this) ''canRead'' [Str (sf_path this)])
       (''Error while checking if '' @ quoted (sf_path this) @ '' can be read'')"

definition SuFile_isHidden :: "'s SuFile \<Rightarrow> ('s, jsval) js" where
  "SuFile_isHidden this =
     SuFile_try (Bool False) (callOn (sf_fileInterface this) ''isHidden'' [Str (sf_path this)])
       (''Error while checking if '' @ quoted (sf_path this) @ '' is hidden'')"

section \<open>Concrete contexts\<close>

text \<open>
  A page outside the host: another user agent, no host object. A page inside the host
  whose host object throws on every call, and one whose host object answers every call
  with \<open>true\<close>; the second argument is the version code the host reports.
\<close>

definition newWorld :: "unit world" where
  "newWorld = \<lparr>host_state = (), events = []\<rparr>"

definition newerVersionWarning :: "int \<Rightarrow> string" where
  "newerVersionWarning requiredVersion = ''This method requires a newer version of MMRL''"

definition browserAccessor :: "unit accessor" where
  "browserAccessor =
     \<lparr>userAgent = ''Mozilla/5.0'', mmrlUserAgent = ''MMRL'', interface = None,
      reportedVersionCode = 0, versionWarning = newerVersionWarning, parseJSON = Inr\<rparr>"

definition throwingHost :: "unit host" where
  "throwingHost m args s = (Inl (HostException ''java.io.IOException''), s)"

definition agreeingHost :: "unit host" where
  "agreeingHost m args s = (Inr (Bool True), s)"

definition hostAccessor :: "unit host \<Rightarrow> int \<Rightarrow> unit accessor" where
  "hostAccessor h code =
     \<lparr>userAgent = ''MMRL'', mmrlUserAgent = ''MMRL'', interface = Some h,
      reportedVersionCode = code, versionWarning = newerVersionWarning, parseJSON = Inr\<rparr>"

definition hostToast :: "unit host \<Rightarrow> int \<Rightarrow> unit Toast" where
  "hostToast h code =
     \<lparr>toast_super = hostAccessor h code, toastBuilder = Obj [], duration = LENGTH_SHORT\<rparr>"

definition browserToast :: "unit Toast" where
  "browserToast =
     \<lparr>toast_super = browserAccessor, toastBuilder = Undefined, duration = LENGTH_SHORT\<rparr>"

section \<open>The input stream (classes/SuFileInputStream)\<close>

text \<open>
  What the host's \<open>readChunk\<close> hands back, seen through the tests of \<open>pull\<close>:
  \<open>NoData\<close> is a falsy result (\<open>null\<close>, \<open>undefined\<close> or the empty string); the other
  cases are a text, told apart by what \<open>JSON.parse\<close> makes of it. \<open>Malformed\<close> is a text
  that \<open>JSON.parse\<close> rejects with a \<open>SyntaxError\<close>, \<open>NoLength\<close> the text of a JSON value
  that is falsy or has no positive \<open>length\<close> other than an array (\<open>null\<close>, a number,
  \<open>{}\<close>), \<open>Bytes xs\<close> the text of the array of integers \<open>xs\<close>. Texts of strings, of
  objects with a \<open>length\<close> and of arrays with other elements are not modelled.
\<close>

datatype chunk_data = NoData | Malformed | NoLength | Bytes "int list"

text \<open>
  The host object found under the pattern, with the methods of the handles it opens.
  \<open>'h\<close> is the state of a handle. \<open>fis_open\<close> returns a handle, nothing (\<open>None\<close>, a
  falsy result) or throws.
\<close>

record 'h FileInputStream =
  fis_open :: "string \<Rightarrow> exn + 'h option"
  fis_read :: "'h \<Rightarrow> (exn + jsval) \<times> 'h"
  fis_skip :: "'h \<Rightarrow> (exn + jsval) \<times> 'h"
  fis_readChunk :: "int \<Rightarrow> 'h \<Rightarrow> (exn + chunk_data) \<times> 'h"
  fis_close :: "'h \<Rightarrow> exn option \<times> 'h"

text \<open>
  \<open>sis_is\<close> is the handle \<open>_is\<close>, truthy once the constructor has returned;
  \<open>sis_calls\<close> records the calls made on it.
\<close>

record 'h SuFileInputStream =
  sis_path :: string
  sis_interface :: string
  sis_host :: "'h FileInputStream"
  sis_is :: 'h
  sis_calls :: "event list"

definition SuFileInputStream_new ::
  "'h FileInputStream window \<Rightarrow> string \<Rightarrow> exn + 'h SuFileInputStream" where
  "SuFileInputStream_new win path =
     (case findInterface win of
        None \<Rightarrow> Inl (ReferenceError ''Unable to find a interface SuFileInputStream'')
      | Some key \<Rightarrow>
          (if key = [] then Inl (ReferenceError ''Unable to find a interface SuFileInputStream'')
           else (case map_of win key of
                   None \<Rightarrow> Inl (TypeError ''Cannot read properties of undefined (reading 'open')'')
                 | Some ob \<Rightarrow>
                     (case fis_open ob path of
                        Inl e \<Rightarrow> Inl e
                      | Inr None \<Rightarrow> Inl (Error ''Failed to open file input stream'')
                      | Inr (Some h) \<Rightarrow>
                          Inr \<lparr>sis_path = path, sis_interface = key, sis_host = ob,
                               sis_is = h, sis_calls = []\<rparr>))))"

definition SuFileInputStream_close :: "'h SuFileInputStream \<Rightarrow> exn option \<times> 'h SuFileInputStream" where
  "SuFileInputStream_close this =
     (case fis_close (sis_host this) (sis_is this) of
        (r, h') \<Rightarrow> (r, this\<lparr>sis_is := h', sis_calls := sis_calls this @ [HostCall ''close'' []]\<rparr>))"

definition SuFileInputStream_read :: "'h SuFileInputStream \<Rightarrow> (exn + jsval) \<times> 'h SuFileInputStream" where
  "SuFileInputStream_read this =
     (case fis_read (sis_host this) (sis_is this) of
        (r, h') \<Rightarrow> (r, this\<lparr>sis_is := h', sis_calls := sis_calls this @ [HostCall ''read'' []]\<rparr>))"

definition SuFileInputStream_skip :: "'h SuFileInputStream \<Rightarrow> (exn + jsval) \<times> 'h SuFileInputStream" where
  "SuFileInputStream_skip this =
     (case fis_skip (sis_host this) (sis_is this) of
        (r, h') \<Rightarrow> (r, this\<lparr>sis_is := h', sis_calls := sis_calls this @ [HostCall ''skip'' []]\<rparr>))"

definition SuFileInputStream_readChunk ::
  "'h SuFileInputStream \<Rightarrow> int \<Rightarrow> (exn + chunk_data) \<times> 'h SuFileInputStream" where
  "SuFileInputStream_readChunk this chunkSize =
     (case fis_readChunk (sis_host this) chunkSize (sis_is this) of
        (r, h') \<Rightarrow>
          (r, this\<lparr>sis_is := h', sis_calls := sis_calls this @ [HostCall ''readChunk'' [Num chunkSize]]\<rparr>))"

section \<open>The streaming read (SuFile.fetch)\<close>

text \<open>
  \<open>fo_chunkSize = None\<close> is an omitted or undefined chunk size, \<open>fo_signal = None\<close> no
  signal, \<open>Some b\<close> a signal whose \<open>aborted\<close> is \<open>b\<close> when \<open>fetch\<close> is called.
\<close>

record FetchStreamOptions =
  fo_chunkSize :: "int option"
  fo_signal :: "bool option"

text \<open>
  \<open>{ ...defaultFetchStreamOptions, ...options }\<close>, then \<open>readChunk\<close>'s own default for an
  undefined argument: one megabyte in both cases.
\<close>

definition mergedChunkSize :: "FetchStreamOptions \<Rightarrow> int" where
  "mergedChunkSize options = (case fo_chunkSize options of None \<Rightarrow> 1024 * 1024 | Some c \<Rightarrow> c)"

datatype promise = Pending | Resolved | Rejected exn

datatype stream_state = Readable | Closed | Errored exn

text \<open>
  The state of one \<open>fetch\<close>: the input stream (\<open>null\<close> when it could not be opened), the
  promise returned, whether \<open>abortHandler\<close> is registered on the signal, whether the
  signal has fired, the \<open>ReadableStream\<close> (\<open>None\<close> before it is created) with the chunks
  enqueued so far, and the console.
\<close>

record 'h fetch_state =
  f_input :: "'h SuFileInputStream option"
  f_chunkSize :: int
  f_hasSignal :: bool
  f_listening :: bool
  f_aborted :: bool
  f_promise :: promise
  f_stream :: "stream_state option"
  f_enqueued :: "8 word list list"
  f_console :: "event list"

fun message :: "exn \<Rightarrow> string" where
  "message (ReferenceError m) = m"
| "message (TypeError m) = m"
| "message (RangeError m) = m"
| "message (Error m) = m"
| "message (AbortError m) = m"
| "message (SyntaxError m) = m"
| "message (HostException m) = m"

text \<open>\<open>resolve\<close> and \<open>reject\<close>: only the first settles the promise.\<close>

definition settle :: "promise \<Rightarrow> 'h fetch_state \<Rightarrow> 'h fetch_state" where
  "settle p st = (if f_promise st = Pending then st\<lparr>f_promise := p\<rparr> else st)"

text \<open>\<open>try { input?.close(); } catch (error) { console.error(msg, error); }\<close>\<close>

definition closeInput :: "string \<Rightarrow> 'h fetch_state \<Rightarrow> 'h fetch_state" where
  "closeInput msg st =
     (case f_input st of
        None \<Rightarrow> st
      | Some inp \<Rightarrow>
          (case SuFileInputStream_close inp of
             (None, inp') \<Rightarrow> st\<lparr>f_input := Some inp'\<rparr>
           | (Some error, inp') \<Rightarrow>
               st\<lparr>f_input := Some inp', f_console := f_console st @ [ConsoleError msg error]\<rparr>))"

definition abortHandler :: "'h fetch_state \<Rightarrow> 'h fetch_state" where
  "abortHandler st =
     settle (Rejected (AbortError ''The operation was aborted.''))
       (closeInput ''Error during abort cleanup:'' st)"

definition cleanup :: "'h fetch_state \<Rightarrow> 'h fetch_state" where
  "cleanup st = closeInput ''Error during cleanup:'' (st\<lparr>f_listening := False\<rparr>)"

text \<open>The \<open>catch\<close> branch of \<open>pull\<close>.\<close>

definition pullFailed :: "exn \<Rightarrow> 'h fetch_state \<Rightarrow> 'h fetch_state" where
  "pullFailed error st =
     settle (Rejected (Error (''Error reading file chunk: '' @ message error)))
       ((cleanup st)\<lparr>f_stream := Some (Errored error)\<rparr>)"

text \<open>\<open>controller.close(); cleanup();\<close>\<close>

definition pullDone :: "'h fetch_state \<Rightarrow> 'h fetch_state" where
  "pullDone st = cleanup (st\<lparr>f_stream := Some Closed\<rparr>)"

text \<open>\<open>new Uint8Array(chunk)\<close> takes every number modulo 256.\<close>

definition Uint8Array :: "int list \<Rightarrow> 8 word list" where
  "Uint8Array chunk = map word_of_int chunk"

definition pull :: "'h fetch_state \<Rightarrow> 'h fetch_state" where
  "pull st =
     (case f_input st of
        None \<Rightarrow> pullFailed (TypeError ''Cannot read properties of null (reading 'readChunk')'') st
      | Some inp \<Rightarrow>
          (case SuFileInputStream_readChunk inp (f_chunkSize st) of
             (Inl error, inp') \<Rightarrow> pullFailed error (st\<lparr>f_input := Some inp'\<rparr>)
           | (Inr NoData, inp') \<Rightarrow> pullDone (st\<lparr>f_input := Some inp'\<rparr>)
           | (Inr Malformed, inp') \<Rightarrow>
               pullFailed (SyntaxError ''Unexpected token in JSON'') (st\<lparr>f_input := Some inp'\<rparr>)
           | (Inr NoLength, inp') \<Rightarrow> pullDone (st\<lparr>f_input := Some inp'\<rparr>)
           | (Inr (Bytes chunk), inp') \<Rightarrow>
               (if length chunk > 0
                then st\<lparr>f_input := Some inp', f_enqueued := f_enqueued st @ [Uint8Array chunk]\<rparr>
                else pullDone (st\<lparr>f_input := Some inp'\<rparr>))))"

text \<open>The body of the promise executor, up to \<open>resolve\<close>.\<close>

definition fetch :: "'h FileInputStream window \<Rightarrow> string \<Rightarrow> FetchStreamOptions \<Rightarrow> 'h fetch_state" where
  "fetch win path options =
     (let st0 = \<lparr>f_input = None, f_chunkSize = mergedChunkSize options,
                 f_hasSignal = (fo_signal options \<noteq> None), f_listening = False,
                 f_aborted = (fo_signal options = Some True), f_promise = Pending,
                 f_stream = None, f_enqueued = [], f_console = []\<rparr>
      in case SuFileInputStream_new win path of
           Inl e \<Rightarrow>
             settle (Rejected (Error (''Failed to open file at path '' @ quoted path @ '': '' @ message e))) st0
         | Inr inp \<Rightarrow>
             (let st1 = st0\<lparr>f_input := Some inp\<rparr> in
              if fo_signal options = Some True then abortHandler st1
              else settle Resolved
                     (st1\<lparr>f_listening := (fo_signal options \<noteq> None), f_stream := Some Readable\<rparr>)))"

text \<open>
  What happens to a fetch afterwards. The stream machinery calls \<open>pull\<close> and \<open>cancel\<close>
  only while the stream is readable; the signal fires at most once, and \<open>abortHandler\<close>
  runs if it is still registered.
\<close>

datatype fetch_input = Pull | Cancel | Abort

fun step :: "'h fetch_state \<Rightarrow> fetch_input \<Rightarrow> 'h fetch_state" where
  "step st Pull = (if f_stream st = Some Readable then pull st else st)"
| "step st Cancel =
     (if f_stream st = Some Readable then cleanup (st\<lparr>f_stream := Some Closed\<rparr>) else st)"
| "step st Abort =
     (if f_hasSignal st \<and> \<not> f_aborted st
      then (if f_listening st then abortHandler (st\<lparr>f_aborted := True\<rparr>)
            else st\<lparr>f_aborted := True\<rparr>)
      else st)"

definition run :: "'h fetch_state \<Rightarrow> fetch_input list \<Rightarrow> 'h fetch_state" where
  "run st inputs = foldl step st inputs"

text \<open>The calls made on the handle, and how many of them are \<open>close\<close>.\<close>

definition handleCalls :: "'h fetch_state \<Rightarrow> event list" where
  "handleCalls st = (case f_input st of None \<Rightarrow> [] | Some inp \<Rightarrow> sis_calls inp)"

definition closeCount :: "'h fetch_state \<Rightarrow> nat" where
  "closeCount st = length (filter (\<lambda>e. e = HostCall ''close'' []) (handleCalls st))"

text \<open>
  A host that serves a file: a handle is the bytes not yet read and whether it is
  open. \<open>readChunk\<close> returns the text of the next \<open>min(chunkSize, remaining)\<close> bytes, each
  byte written as the integer \<open>enc\<close> gives for it, and \<open>null\<close> at the end of the file; on
  a closed handle it throws, as \<open>java.io.FileInputStream\<close> does.
\<close>

definition fileHost :: "(8 word \<Rightarrow> int) \<Rightarrow> 8 word list \<Rightarrow> (8 word list \<times> bool) FileInputStream" where
  "fileHost enc file =
     \<lparr>fis_open = (\<lambda>path. Inr (Some (file, True))),
      fis_read = (\<lambda>(remaining, opened).
         if \<not> opened then (Inl (HostException ''java.io.IOException: Stream Closed''), (remaining, opened))
         else (case remaining of
                 [] \<Rightarrow> (Inr (Num (- 1)), (remaining, opened))
               | b # bs \<Rightarrow> (Inr (Num (uint b)), (bs, opened)))),
      fis_skip = (\<lambda>h. (Inr (Num 0), h)),
      fis_readChunk = (\<lambda>chunkSize (remaining, opened).
         if \<not> opened then (Inl (HostException ''java.io.IOException: Stream Closed''), (remaining, opened))
         else if remaining = [] then (Inr NoData, (remaining, opened))
         else (Inr (Bytes (map enc (take (nat chunkSize) remaining))),
               (drop (nat chunkSize) remaining, opened))),
      fis_close = (\<lambda>(remaining, opened). (None, (remaining, False)))\<rparr>"

text \<open>A host whose \<open>open\<close> returns nothing, \<open>none\<close> being the only handle state.\<close>

definition refusingHost :: "unit FileInputStream" where
  "refusingHost =
     \<lparr>fis_open = (\<lambda>path. Inr None),
      fis_read = (\<lambda>h. (Inr Null, h)),
      fis_skip = (\<lambda>h. (Inr (Num 0), h)),
      fis_readChunk = (\<lambda>chunkSize h. (Inr NoData, h)),
      fis_close = (\<lambda>h. (None, h))\<rparr>"

text \<open>A list cut into consecutive pieces of \<open>c\<close> elements, the last one possibly shorter.\<close>

function chunksOf :: "nat \<Rightarrow> 'a list \<Rightarrow> 'a list list" where
  "chunksOf c xs = (if c = 0 \<or> xs = [] then [] else take c xs # chunksOf c (drop c xs))"
  by pat_completeness auto
termination
  by (relation "measure (\<lambda>(c, xs). length xs)") auto

text \<open>A window in which the file-stream interface of a host serving five bytes is bound.\<close>

definition fiveBytes :: "8 word list" where
  "fiveBytes = [0x50, 0x4B, 0xFF, 0x80, 0x0A]"

definition fiveBytesWindow :: "(8 word list \<times> bool) FileInputStream window" where
  "fiveBytesWindow = [(''$mmFileInputStream'', fileHost sint fiveBytes)]"

text \<open>
  The handle of a fetch has been closed once: no \<open>close\<close> while the stream is readable,
  exactly one when it is not.
\<close>

definition closedOnce :: "'h fetch_state \<Rightarrow> bool" where
  "closedOnce st =
     (f_input st \<noteq> None
      \<and> (if f_stream st = Some Readable then closeCount st = 0 else closeCount st = 1))"

section \<open>Nested keys (the library functions \<open>_.get\<close> and \<open>_.set\<close>)\<close>

text \<open>
  \<open>Config\<close> reads and writes its document with \<open>get\<close> and \<open>set\<close> of the library lodash,
  which the repository imports. They are modelled after the library's source (version
  4.17.21) and the language's property access, on documents as \<open>JSON.parse\<close> gives them:
  plain objects, arrays, strings, numbers, booleans and \<open>null\<close>. A library function
  returns \<open>None\<close> where a call leaves this model: a read that would find a member
  inherited from a prototype, and an assignment to an array at a key that is neither an
  index nor \<open>length\<close>, or to \<open>length\<close> of a value whose conversion to a number is not
  modelled.
\<close>

definition isDigit :: "char \<Rightarrow> bool" where
  "isDigit c = (48 \<le> (of_char c :: nat) \<and> (of_char c :: nat) \<le> 57)"

definition decimalValue :: "string \<Rightarrow> int" where
  "decimalValue s = foldl (\<lambda>n c. 10 * n + (of_char c - 48)) 0 s"

text \<open>\<open>reIsUint = /^(?:0|[1-9]\d*)$/\<close>, and \<open>isIndex\<close>: such a string below \<open>MAX_SAFE_INTEGER\<close>.\<close>

definition reIsUint :: "string \<Rightarrow> bool" where
  "reIsUint s = (s \<noteq> [] \<and> list_all isDigit s \<and> (hd s = CHR ''0'' \<longrightarrow> s = ''0''))"

definition isIndex :: "string \<Rightarrow> bool" where
  "isIndex s = (reIsUint s \<and> decimalValue s < 9007199254740991)"

text \<open>
  The language's array index: a property name that is the canonical decimal text of an
  integer below \<open>2^32 - 1\<close>.
\<close>

definition arrayIndex :: "string \<Rightarrow> nat option" where
  "arrayIndex s =
     (if reIsUint s \<and> decimalValue s < 4294967295 then Some (nat (decimalValue s)) else None)"

text \<open>\<open>isObject(value)\<close>: not \<open>null\<close>, and of type \<open>object\<close> or \<open>function\<close>.\<close>

fun isObject :: "jsval \<Rightarrow> bool" where
  "isObject (Obj ps) = True"
| "isObject (Arr xs) = True"
| "isObject v = False"

text \<open>
  The members of \<open>Object.prototype\<close>, which every object, number and boolean inherits, and
  the further members of \<open>Number.prototype\<close>.
\<close>

definition objectPrototypeNames :: "string list" where
  "objectPrototypeNames =
     [''__proto__'', ''constructor'', ''hasOwnProperty'', ''isPrototypeOf'',
      ''propertyIsEnumerable'', ''toLocaleString'', ''toString'', ''valueOf'',
      ''__defineGetter__'', ''__defineSetter__'', ''__lookupGetter__'', ''__lookupSetter__'']"

definition numberPrototypeNames :: "string list" where
  "numberPrototypeNames = [''toExponential'', ''toFixed'', ''toPrecision'']"

text \<open>
  \<open>object[key]\<close>. An own property is read; a name that is not an own property reads as
  \<open>undefined\<close> unless the prototype has it. An array has its elements and \<open>length\<close>, a
  string its characters and \<open>length\<close>; their other names are left to the prototypes.
  \<open>null\<close> and \<open>undefined\<close> have no properties, and the library never reads one of them.
\<close>

fun getProp :: "jsval \<Rightarrow> string \<Rightarrow> jsval option" where
  "getProp (Obj ps) key =
     (case map_of ps key of
        Some v \<Rightarrow> Some v
      | None \<Rightarrow> if key \<in> set objectPrototypeNames then None else Some Undefined)"
| "getProp (Arr xs) key =
     (case arrayIndex key of
        Some i \<Rightarrow> Some (if i < length xs then xs ! i else Undefined)
      | None \<Rightarrow> if key = ''length'' then Some (Num (int (length xs))) else None)"
| "getProp (Str s) key =
     (case arrayIndex key of
        Some i \<Rightarrow> Some (if i < length s then Str [s ! i] else Undefined)
      | None \<Rightarrow> if key = ''length'' then Some (Num (int (length s))) else None)"
| "getProp (Num n) key =
     (if key \<in> set objectPrototypeNames \<or> key \<in> set numberPrototypeNames then None
      else Some Undefined)"
| "getProp (Bool b) key =
     (if key \<in> set objectPrototypeNames then None else Some Undefined)"
| "getProp Null key = None"
| "getProp Undefined key = None"

text \<open>
  \<open>object[key] = value\<close>, which is what \<open>assignValue\<close> comes to: the result is the
  exception thrown, if any, and the object after the assignment. A new property of a
  plain object comes last. An array grows to hold a new index, the elements between
  being holes; an assignment to \<open>length\<close> cuts or extends it, and throws a \<open>RangeError\<close>
  for a number that is not a length and for \<open>undefined\<close>.
\<close>

fun putAssoc :: "string \<Rightarrow> jsval \<Rightarrow> (string \<times> jsval) list \<Rightarrow> (string \<times> jsval) list" where
  "putAssoc key v [] = [(key, v)]"
| "putAssoc key v (p # ps) = (if fst p = key then (key, v) # ps else p # putAssoc key v ps)"

definition setIndex :: "nat \<Rightarrow> jsval \<Rightarrow> jsval list \<Rightarrow> jsval list" where
  "setIndex i v xs =
     (if i < length xs then xs[i := v] else xs @ replicate (i - length xs) Undefined @ [v])"

definition setLength :: "nat \<Rightarrow> jsval list \<Rightarrow> jsval list" where
  "setLength n xs = take n xs @ replicate (n - length xs) Undefined"

fun assignValue :: "jsval \<Rightarrow> string \<Rightarrow> jsval \<Rightarrow> (exn option \<times> jsval) option" where
  "assignValue (Obj ps) key v = Some (None, Obj (putAssoc key v ps))"
| "assignValue (Arr xs) key v =
     (case arrayIndex key of
        Some i \<Rightarrow> Some (None, Arr (setIndex i v xs))
      | None \<Rightarrow>
          if key = ''length'' then
            (case v of
               Num n \<Rightarrow>
                 if 0 \<le> n \<and> n < 4294967296 then Some (None, Arr (setLength (nat n) xs))
                 else Some (Some (RangeError ''Invalid array length''), Arr xs)
             | Undefined \<Rightarrow> Some (Some (RangeError ''Invalid array length''), Arr xs)
             | other \<Rightarrow> None)
          else None)"
| "assignValue ob key v = None"

text \<open>
  \<open>stringToPath\<close> collects the matches of the pattern \<open>rePropName\<close> in the key. The
  pattern has three alternatives, tried in this order at each position: a run of
  characters other than the dot and the brackets, \<open>[^.[\]]+\<close>; a bracket that holds a
  number or a quoted string; the empty string before a separator,
  \<open>(?=(?:\.|\[\])(?:\.|\[\]|$))\<close>.
\<close>

definition pathChar :: "char \<Rightarrow> bool" where
  "pathChar c = (c \<noteq> CHR ''.'' \<and> c \<noteq> CHR ''['' \<and> c \<noteq> CHR '']'')"

text \<open>
  The second alternative, after its opening bracket: a number, \<open>-?\d+(?:\.\d+)?\<close>, or a
  quoted string, each followed by the closing bracket. \<open>matchDigits\<close> gives the text of the
  number without its sign, \<open>matchQuoted\<close> the text between the quotes, in which a
  backslash takes the next character with it, a line terminator excepted.
\<close>

definition matchDigits :: "string \<Rightarrow> string option" where
  "matchDigits s =
     (if takeWhile isDigit s = [] then None
      else (case dropWhile isDigit s of
              [] \<Rightarrow> None
            | c # r \<Rightarrow>
                if c = CHR ''.'' \<and> takeWhile isDigit r \<noteq> []
                   \<and> (case dropWhile isDigit r of [] \<Rightarrow> False | d # r' \<Rightarrow> d = CHR '']'')
                then Some (takeWhile isDigit s @ CHR ''.'' # takeWhile isDigit r)
                else if c = CHR '']'' then Some (takeWhile isDigit s)
                else None))"

definition matchNumber :: "string \<Rightarrow> string option" where
  "matchNumber s =
     (case s of
        [] \<Rightarrow> None
      | c # r \<Rightarrow>
          if c = CHR ''-'' then map_option (\<lambda>t. c # t) (matchDigits r) else matchDigits s)"

fun matchQuoted :: "char \<Rightarrow> string \<Rightarrow> string option" where
  "matchQuoted q [] = None"
| "matchQuoted q (c # cs) =
     (if c = q then (if cs \<noteq> [] \<and> hd cs = CHR '']'' then Some [] else None)
      else if c = CHR 0x5C then
        (case cs of
           [] \<Rightarrow> None
         | d # ds \<Rightarrow>
             if isLineTerminator d then None
             else map_option (\<lambda>r. c # d # r) (matchQuoted q ds))
      else map_option (\<lambda>r. c # r) (matchQuoted q cs))"

text \<open>
  The segment of a quoted string is its text with \<open>reEscapeChar = /\\(\\)?/g\<close> replaced
  by the group: a doubled backslash becomes one, a single one goes.
\<close>

fun unescape :: "string \<Rightarrow> string" where
  "unescape [] = []"
| "unescape (c # cs) =
     (if c = CHR 0x5C then
        (case cs of
           [] \<Rightarrow> []
         | d # ds \<Rightarrow> if d = CHR 0x5C then d # unescape ds else unescape cs)
      else c # unescape cs)"

text \<open>The segment a bracket gives, and the number of characters of the match.\<close>

definition matchBracket :: "string \<Rightarrow> (string \<times> nat) option" where
  "matchBracket s =
     (case matchNumber s of
        Some t \<Rightarrow> Some (t, length t + 2)
      | None \<Rightarrow>
          (case s of
             [] \<Rightarrow> None
           | q # r \<Rightarrow>
               if q = CHR 0x22 \<or> q = CHR 0x27 then
                 (case matchQuoted q r of
                    None \<Rightarrow> None
                  | Some raw \<Rightarrow> Some (unescape raw, length raw + 4))
               else None))"

text \<open>
  The third alternative matches the empty string before a dot or \<open>[]\<close> that is followed by
  another one or by the end of the key.
\<close>

definition afterSeparator :: "string \<Rightarrow> string option" where
  "afterSeparator s =
     (case s of
        [] \<Rightarrow> None
      | c # cs \<Rightarrow>
          if c = CHR ''.'' then Some cs
          else if c = CHR ''['' \<and> cs \<noteq> [] \<and> hd cs = CHR '']'' then Some (tl cs)
          else None)"

definition matchEmpty :: "string \<Rightarrow> bool" where
  "matchEmpty s =
     (case afterSeparator s of None \<Rightarrow> False | Some r \<Rightarrow> r = [] \<or> afterSeparator r \<noteq> None)"

text \<open>
  A match that starts at the head of the text: the segment pushed and the length of the
  match.
\<close>

definition rePropNameAt :: "string \<Rightarrow> (string \<times> nat) option" where
  "rePropNameAt s =
     (case s of
        [] \<Rightarrow> None
      | c # cs \<Rightarrow>
          if pathChar c then Some (takeWhile pathChar s, length (takeWhile pathChar s))
          else (case (if c = CHR ''['' then matchBracket cs else None) of
                  Some t \<Rightarrow> Some t
                | None \<Rightarrow> if matchEmpty s then Some ([], 0) else None))"

text \<open>
  The matches from left to right. The first argument counts the characters still covered
  by the last match; after an empty match the search moves on by one character.
\<close>

fun rePropNameFrom :: "nat \<Rightarrow> string \<Rightarrow> string list" where
  "rePropNameFrom n [] = []"
| "rePropNameFrom (Suc n) (c # cs) = rePropNameFrom n cs"
| "rePropNameFrom 0 (c # cs) =
     (case rePropNameAt (c # cs) of
        None \<Rightarrow> rePropNameFrom 0 cs
      | Some (seg, len) \<Rightarrow> seg # rePropNameFrom (len - 1) cs)"

text \<open>A key that starts with a dot has an empty first segment.\<close>

definition stringToPath :: "string \<Rightarrow> string list" where
  "stringToPath s = (if s \<noteq> [] \<and> hd s = CHR ''.'' then [[]] else []) @ rePropNameFrom 0 s"

text \<open>
  \<open>isKey\<close>: \<open>reIsPlainProp = /^\w*$/\<close>; \<open>reIsDeepProp\<close>, which finds a dot, or an opening
  bracket followed by characters other than brackets or by a quoted string and then by a
  closing bracket; and \<open>value in Object(object)\<close>, which for a key that \<open>reIsDeepProp\<close>
  matches asks for an own property of a plain object: no array index, no \<open>length\<close> and
  no member of a prototype has a dot or a bracket in its name.
\<close>

definition reIsPlainProp :: "string \<Rightarrow> bool" where
  "reIsPlainProp s = list_all isWordChar s"

definition deepBracket :: "string \<Rightarrow> bool" where
  "deepBracket s =
     ((case dropWhile (\<lambda>c. c \<noteq> CHR ''['' \<and> c \<noteq> CHR '']'') s of
         [] \<Rightarrow> False
       | c # cs \<Rightarrow> c = CHR '']'')
      \<or> (case s of
            [] \<Rightarrow> False
          | q # r \<Rightarrow> (q = CHR 0x22 \<or> q = CHR 0x27) \<and> matchQuoted q r \<noteq> None))"

fun reIsDeepProp :: "string \<Rightarrow> bool" where
  "reIsDeepProp [] = False"
| "reIsDeepProp (c # cs) =
     (c = CHR ''.'' \<or> (c = CHR ''['' \<and> deepBracket cs) \<or> reIsDeepProp cs)"

fun hasDeepKey :: "jsval \<Rightarrow> string \<Rightarrow> bool" where
  "hasDeepKey (Obj ps) key = (map_of ps key \<noteq> None)"
| "hasDeepKey v key = False"

definition isKey :: "string \<Rightarrow> jsval \<Rightarrow> bool" where
  "isKey key ob =
     (reIsPlainProp key \<or> \<not> reIsDeepProp key
      \<or> (ob \<noteq> Null \<and> ob \<noteq> Undefined \<and> hasDeepKey ob key))"

text \<open>\<open>castPath(value, object)\<close>: the key itself when \<open>isKey\<close> holds, else its segments.\<close>

definition castPath :: "string \<Rightarrow> jsval \<Rightarrow> string list" where
  "castPath key ob = (if isKey key ob then [key] else stringToPath key)"

text \<open>
  The loop of \<open>baseGet\<close>, which stops at \<open>null\<close> and \<open>undefined\<close>; the result is \<open>undefined\<close>
  unless the whole path has been followed, and for the empty path.
\<close>

fun baseGetFrom :: "jsval \<Rightarrow> string list \<Rightarrow> jsval option" where
  "baseGetFrom ob [] = Some ob"
| "baseGetFrom ob (key # rest) =
     (if ob = Null \<or> ob = Undefined then Some Undefined
      else (case getProp ob key of None \<Rightarrow> None | Some x \<Rightarrow> baseGetFrom x rest))"

definition baseGet :: "jsval \<Rightarrow> string list \<Rightarrow> jsval option" where
  "baseGet ob path = (if path = [] then Some Undefined else baseGetFrom ob path)"

text \<open>\<open>_.get(object, path, defaultValue)\<close>: the default stands in for \<open>undefined\<close>.\<close>

definition lodash_get :: "jsval \<Rightarrow> string \<Rightarrow> jsval \<Rightarrow> jsval option" where
  "lodash_get ob key defaultValue =
     (case (if ob = Null \<or> ob = Undefined then Some Undefined
            else baseGet ob (castPath key ob)) of
        None \<Rightarrow> None
      | Some result \<Rightarrow> Some (if result = Undefined then defaultValue else result))"

definition unsafeKey :: "string \<Rightarrow> bool" where
  "unsafeKey key = (key = ''__proto__'' \<or> key = ''constructor'' \<or> key = ''prototype'')"

text \<open>
  \<open>newValue = isObject(objValue) ? objValue : (isIndex(path[index + 1]) ? [] : {})\<close>: what
  \<open>baseSet\<close> stores at a segment that is not the last.
\<close>

definition newValue :: "jsval \<Rightarrow> string \<Rightarrow> jsval" where
  "newValue objValue next =
     (if isObject objValue then objValue else if isIndex next then Arr [] else Obj [])"

text \<open>
  The loop of \<open>baseSet\<close> from one level down. An unsafe key stops it and leaves what has
  been assigned so far. At a segment that is not the last, \<open>newValue\<close> is assigned and
  the loop goes on inside it; the level then holds what the rest of the loop has made of
  that value, also when the rest has thrown.
\<close>

fun baseSetFrom :: "jsval \<Rightarrow> string list \<Rightarrow> jsval \<Rightarrow> (exn option \<times> jsval) option" where
  "baseSetFrom nested [] v = Some (None, nested)"
| "baseSetFrom nested (key # rest) v =
     (if unsafeKey key then Some (None, nested)
      else if rest = [] then assignValue nested key v
      else (case getProp nested key of
              None \<Rightarrow> None
            | Some objValue \<Rightarrow>
                (case assignValue nested key (newValue objValue (hd rest)) of
                   None \<Rightarrow> None
                 | Some (Some e, nested1) \<Rightarrow> Some (Some e, nested1)
                 | Some (None, nested1) \<Rightarrow>
                     (case baseSetFrom (newValue objValue (hd rest)) rest v of
                        None \<Rightarrow> None
                      | Some (thrown, changed) \<Rightarrow>
                          (case assignValue nested1 key changed of
                             Some (None, nested2) \<Rightarrow> Some (thrown, nested2)
                           | other \<Rightarrow> None)))))"

text \<open>
  \<open>_.set(object, path, value)\<close>: the exception thrown, if any, and the object after the
  call. A value that is not an object is left as it is.
\<close>

definition lodash_set :: "jsval \<Rightarrow> string \<Rightarrow> jsval \<Rightarrow> (exn option \<times> jsval) option" where
  "lodash_set ob key v =
     (if \<not> isObject ob then Some (None, ob) else baseSetFrom ob (castPath key ob) v)"

section \<open>The serializer \<open>JSON.stringify(value, null, 2)\<close>\<close>

text \<open>
  \<open>QuoteJSONString\<close>: the control characters, the double quote and the backslash are
  escaped.
\<close>

definition hexDigit :: "nat \<Rightarrow> char" where
  "hexDigit n = ''0123456789abcdef'' ! (n mod 16)"

definition escapeJSON :: "char \<Rightarrow> string" where
  "escapeJSON c =
     (let n = (of_char c :: nat) in
      if n = 8 then [CHR 0x5C, CHR ''b'']
      else if n = 9 then [CHR 0x5C, CHR ''t'']
      else if n = 10 then [CHR 0x5C, CHR ''n'']
      else if n = 12 then [CHR 0x5C, CHR ''f'']
      else if n = 13 then [CHR 0x5C, CHR ''r'']
      else if n = 34 then [CHR 0x5C, CHR 0x22]
      else if n = 92 then [CHR 0x5C, CHR 0x5C]
      else if n < 32 then [CHR 0x5C, CHR ''u'', CHR ''0'', CHR ''0'', hexDigit (n div 16), hexDigit n]
      else [c])"

definition QuoteJSONString :: "string \<Rightarrow> string" where
  "QuoteJSONString s = [CHR 0x22] @ concat (map escapeJSON s) @ [CHR 0x22]"

text \<open>The decimal text of a number, which the model takes to be an integer.\<close>

function digitsOf :: "nat \<Rightarrow> string" where
  "digitsOf n =
     (if n < 10 then [char_of (48 + n)] else digitsOf (n div 10) @ [char_of (48 + n mod 10)])"
  by pat_completeness auto
termination by (relation "measure id") auto

definition numberToString :: "int \<Rightarrow> string" where
  "numberToString n = (if n < 0 then CHR ''-'' # digitsOf (nat (- n)) else digitsOf (nat n))"

fun joinWith :: "string \<Rightarrow> string list \<Rightarrow> string" where
  "joinWith sep [] = []"
| "joinWith sep [x] = x"
| "joinWith sep (x # y # ys) = x @ sep @ joinWith sep (y # ys)"

text \<open>
  The own properties of an object in the order of the language: the array indices in
  ascending order, then the other names in the order of their creation.
\<close>

definition ownKeysOrder :: "(string \<times> 'a) list \<Rightarrow> (string \<times> 'a) list" where
  "ownKeysOrder ps =
     sort_key (\<lambda>p. case arrayIndex (fst p) of None \<Rightarrow> 0 | Some i \<Rightarrow> i)
       (filter (\<lambda>p. arrayIndex (fst p) \<noteq> None) ps)
     @ filter (\<lambda>p. arrayIndex (fst p) = None) ps"

text \<open>
  \<open>SerializeJSONProperty\<close> with a gap of two spaces, at the current indentation. A
  property whose value is \<open>undefined\<close> is left out of an object; in an array \<open>undefined\<close>
  is written \<open>null\<close>.
\<close>

fun SerializeJSONProperty :: "string \<Rightarrow> jsval \<Rightarrow> string option" where
  "SerializeJSONProperty indent Undefined = None"
| "SerializeJSONProperty indent Null = Some ''null''"
| "SerializeJSONProperty indent (Bool b) = Some (if b then ''true'' else ''false'')"
| "SerializeJSONProperty indent (Num n) = Some (numberToString n)"
| "SerializeJSONProperty indent (Str s) = Some (QuoteJSONString s)"
| "SerializeJSONProperty indent (Arr xs) =
     Some (if xs = [] then ''[]''
           else ''['' @ [CHR 0x0A] @ indent @ ''  ''
                @ joinWith ('','' @ [CHR 0x0A] @ indent @ ''  '')
                    (map (\<lambda>x. case SerializeJSONProperty (indent @ ''  '') x of
                                None \<Rightarrow> ''null'' | Some t \<Rightarrow> t) xs)
                @ [CHR 0x0A] @ indent @ '']'')"
| "SerializeJSONProperty indent (Obj ps) =
     Some (case concat (map (\<lambda>(k, t). case t of
                                         None \<Rightarrow> []
                                       | Some str \<Rightarrow> [QuoteJSONString k @ '': '' @ str])
                         (ownKeysOrder
                            (map (\<lambda>(k, v). (k, SerializeJSONProperty (indent @ ''  '') v)) ps))) of
             [] \<Rightarrow> ''{}''
           | p # partial \<Rightarrow>
               ''{'' @ [CHR 0x0A] @ indent @ ''  ''
               @ joinWith ('','' @ [CHR 0x0A] @ indent @ ''  '') (p # partial)
               @ [CHR 0x0A] @ indent @ ''}'')"

text \<open>\<open>JSON.stringify(value, null, 2)\<close>: a string, or \<open>undefined\<close> for \<open>undefined\<close>.\<close>

definition JSON_stringify :: "jsval \<Rightarrow> jsval" where
  "JSON_stringify v = (case SerializeJSONProperty [] v of None \<Rightarrow> Undefined | Some t \<Rightarrow> Str t)"

section \<open>The configuration accessor (classes/Config)\<close>

text \<open>
  The document is a value. \<open>JSON.parse\<close> of the engine, which only the constructor calls,
  is a parameter.
\<close>

record 's Config =
  cfg_fs :: "'s accessor"
  cfg_config :: jsval
  cfg_configFolder :: string
  cfg_filePath :: string

definition js_bind :: "('s, 'a) js \<Rightarrow> ('a \<Rightarrow> ('s, 'b) js) \<Rightarrow> ('s, 'b) js" where
  "js_bind m f w = (case m w of (Inl e, w') \<Rightarrow> (Inl e, w') | (Inr v, w') \<Rightarrow> f v w')"

definition Config_loadConfig ::
  "(string \<Rightarrow> exn + jsval) \<Rightarrow> 's accessor \<Rightarrow> string \<Rightarrow> ('s, jsval) js" where
  "Config_loadConfig parse fs filePath =
     js_bind (FileSystem_read fs filePath False)
       (\<lambda>fileContent w.
          if \<not> truthy fileContent then (Inl (Error ''Failed to read config file.''), w)
          else (case fileContent of
                  Str text \<Rightarrow> (parse text, w)
                | other \<Rightarrow> (Inl (SyntaxError ''Unexpected token in JSON''), w)))"

text \<open>
  The constructor. \<open>resolve\<close> stands for \<open>Path.resolve\<close> of the class \<open>Path\<close>, whose
  source is missing: the path of \<open>config.json\<close> inside the folder of the scope.
\<close>

definition Config_new ::
  "(string \<Rightarrow> exn + jsval) \<Rightarrow> (string \<Rightarrow> string \<Rightarrow> string) \<Rightarrow> (string \<Rightarrow> string)
   \<Rightarrow> 's host window \<Rightarrow> 's accessor \<Rightarrow> string \<Rightarrow> ('s, 's Config) js" where
  "Config_new parse resolve upper win super scope =
     (let configFolder = ''/data/adb/.config/'' @ scope;
          fs = FileSystem_new upper win super (ScopeName scope);
          filePath = resolve configFolder ''config.json''
      in js_bind (FileSystem_exists fs filePath)
           (\<lambda>found.
              js_bind (if \<not> truthy found
                       then js_bind (FileSystem_mkdirs fs configFolder)
                              (\<lambda>made. if truthy made then FileSystem_write fs filePath ''{}''
                                       else (\<lambda>w. (Inr Undefined, w)))
                       else (\<lambda>w. (Inr Undefined, w)))
                (\<lambda>u. js_bind (Config_loadConfig parse fs filePath)
                        (\<lambda>config w.
                           (Inr \<lparr>cfg_fs = fs, cfg_config = config,
                                 cfg_configFolder = configFolder, cfg_filePath = filePath\<rparr>, w)))))"

text \<open>\<open>get\<close>: \<open>None\<close> where the library call leaves the model.\<close>

definition Config_get :: "'s Config \<Rightarrow> string \<Rightarrow> jsval \<Rightarrow> jsval option" where
  "Config_get this key def = lodash_get (cfg_config this) key def"

text \<open>
  \<open>_saveConfig\<close> writes the serialized document; \<open>write\<close> gets what \<open>JSON.stringify\<close>
  returns, also when that is not a string.
\<close>

definition Config_saveConfig :: "'s Config \<Rightarrow> ('s, jsval) js" where
  "Config_saveConfig this w =
     (case JSON_stringify (cfg_config this) of
        Str text \<Rightarrow> FileSystem_write (cfg_fs this) (cfg_filePath this) text w
      | other \<Rightarrow>
          if isMMRL (cfg_fs this)
          then callVoid (interface (cfg_fs this)) ''write'' [Str (cfg_filePath this), other] w
          else (Inr Undefined, w))"

text \<open>
  \<open>set\<close> changes the document in memory, then saves it: the result of the call, the
  configuration after it, and the world. An exception of the library call ends \<open>set\<close>
  before the document is saved. \<open>None\<close> where the library call leaves the model.
\<close>

definition Config_set ::
  "'s Config \<Rightarrow> string \<Rightarrow> jsval \<Rightarrow> 's world
   \<Rightarrow> ((exn + jsval) \<times> 's Config \<times> 's world) option" where
  "Config_set this key v w =
     (case lodash_set (cfg_config this) key v of
        None \<Rightarrow> None
      | Some (Some e, changed) \<Rightarrow> Some (Inl e, this\<lparr>cfg_config := changed\<rparr>, w)
      | Some (None, changed) \<Rightarrow>
          (case Config_saveConfig (this\<lparr>cfg_config := changed\<rparr>) w of
             (r, w') \<Rightarrow> Some (r, this\<lparr>cfg_config := changed\<rparr>, w')))"

text \<open>A document made of plain objects and primitive values, with no array in it.\<close>

fun plainDocument :: "jsval \<Rightarrow> bool" where
  "plainDocument (Obj ps) = (\<forall>p \<in> set ps. plainDocument (snd p))"
| "plainDocument (Arr xs) = False"
| "plainDocument v = True"

text \<open>
  A host filesystem in memory, the newest content of a path first, a configuration on
  it with a given document, and texts given line by line.
\<close>

definition memoryHost :: "((string \<times> string) list) host" where
  "memoryHost m args files =
     (if m = ''exists'' then
        (case args of [Str p] \<Rightarrow> (Inr (Bool (map_of files p \<noteq> None)), files)
                    | other \<Rightarrow> (Inl (TypeError ''bad arguments''), files))
      else if m = ''read'' then
        (case args of [Str p, Bool b] \<Rightarrow>
                        (Inr (case map_of files p of None \<Rightarrow> Null | Some d \<Rightarrow> Str d), files)
                    | other \<Rightarrow> (Inl (TypeError ''bad arguments''), files))
      else if m = ''write'' then
        (case args of [Str p, Str d] \<Rightarrow> (Inr Undefined, (p, d) # files)
                    | other \<Rightarrow> (Inl (TypeError ''bad arguments''), files))
      else if m = ''mkdirs'' then (Inr (Bool True), files)
      else (Inl (TypeError (m @ '' is not a function'')), files))"

definition memoryConfig :: "jsval \<Rightarrow> ((string \<times> string) list) Config" where
  "memoryConfig document =
     \<lparr>cfg_fs = \<lparr>userAgent = ''MMRL'', mmrlUserAgent = ''MMRL'', interface = Some memoryHost,
                 reportedVersionCode = 33200, versionWarning = newerVersionWarning,
                 parseJSON = Inr\<rparr>,
      cfg_config = document,
      cfg_configFolder = ''/data/adb/.config/net-switch'',
      cfg_filePath = ''/data/adb/.config/net-switch/config.json''\<rparr>"

definition memoryWorld :: "((string \<times> string) list) world" where
  "memoryWorld = \<lparr>host_state = [], events = []\<rparr>"

definition textLines :: "string list \<Rightarrow> string" where
  "textLines ls = joinWith [CHR 0x0A] ls"

definition doubleQuoted :: "string \<Rightarrow> string" where
  "doubleQuoted s = [CHR 0x22] @ s @ [CHR 0x22]"

section \<open>Properties of the scope names\<close>

lemma sanitizeScope_length: "length (sanitizeScope s) = length s"
  by (induction s) simp_all

lemma sanitizeScope_nth:
  "i < length s \<Longrightarrow>
   sanitizeScope s ! i = (if s ! i = CHR ''-'' \<or> s ! i = CHR ''.'' then CHR ''_'' else s ! i)"
proof (induction s arbitrary: i)
  case Nil
  then show ?case by simp
next
  case (Cons c cs)
  then show ?case by (cases i) simp_all
qed

lemma sanitizeScope_clean:
  "CHR ''-'' \<notin> set (sanitizeScope s) \<and> CHR ''.'' \<notin> set (sanitizeScope s)"
  by (induction s) auto

text \<open>
  C9. The name under which \<open>parseScope\<close> first looks a scope up is \<open>$\<close> followed by
  the sanitized scope, a function of the scope alone. The sanitized scope has the
  length of the scope; at every position it holds \<open>_\<close> where the scope holds \<open>-\<close> or
  \<open>.\<close> and the scope's own character elsewhere, so that no \<open>-\<close> and no \<open>.\<close> is left.
\<close>

theorem sanitizeScope_replaces:
  "length (sanitizeScope s) = length s
   \<and> (\<forall>i < length s. sanitizeScope s ! i =
         (if s ! i = CHR ''-'' \<or> s ! i = CHR ''.'' then CHR ''_'' else s ! i))
   \<and> CHR ''-'' \<notin> set (sanitizeScope s) \<and> CHR ''.'' \<notin> set (sanitizeScope s)
   \<and> (map_of win (CHR ''$'' # sanitizeScope s) = Some ob
        \<longrightarrow> parseScope win (ScopeName s) = Some ob)"
  using sanitizeScope_length [of s] sanitizeScope_nth [of _ s] sanitizeScope_clean [of s]
  by (simp add: parseScope_def)

theorem sanitizeScope_replaces_witness:
  "sanitizeScope ''net-switch.v2'' = ''net_switch_v2''
   \<and> parseScope [(''$net_switch_v2'', True)] (ScopeName ''net-switch.v2'') = Some True"
proof -
  have len: "length ''net-switch.v2'' = 13" by simp
  have m: "map_of [(''$net_switch_v2'', True)] (CHR ''$'' # sanitizeScope ''net-switch.v2'') = Some True"
    by simp
  from sanitizeScope_replaces [of "''net-switch.v2''" "[(''$net_switch_v2'', True)]" True] m
  have "parseScope [(''$net_switch_v2'', True)] (ScopeName ''net-switch.v2'') = Some True"
    by blast
  then show ?thesis by simp
qed

text \<open>
  C10. For a scope of at least two characters the file-interface name is the
  uppercased first character of the sanitized scope, its second character, and
  \<open>File\<close>. Nothing beyond the second character enters the name: two such scopes whose
  sanitized forms agree on the first two characters have the same name and resolve to
  the same global.
\<close>

theorem sanitizedModIdWithFile_two_chars:
  "2 \<le> length s \<longrightarrow>
     sanitizedModIdWithFile upper s
       = upper [sanitizeScope s ! 0] @ [sanitizeScope s ! 1] @ ''File''
     \<and> (\<forall>t. 2 \<le> length t \<and> take 2 (sanitizeScope t) = take 2 (sanitizeScope s) \<longrightarrow>
           sanitizedModIdWithFile upper t = sanitizedModIdWithFile upper s
           \<and> parseFileScope upper win (ScopeName t) = parseFileScope upper win (ScopeName s))"
proof
  assume s: "2 \<le> length s"
  have name: "sanitizedModIdWithFile upper u
                = upper [sanitizeScope u ! 0] @ [sanitizeScope u ! 1] @ ''File''"
    if "2 \<le> length u" for u
    using that by (simp add: sanitizedModIdWithFile_def Let_def sanitizeScope_length)
  have same: "sanitizedModIdWithFile upper t = sanitizedModIdWithFile upper s"
    if t: "2 \<le> length t" and eq: "take 2 (sanitizeScope t) = take 2 (sanitizeScope s)" for t
  proof -
    have "take 2 (sanitizeScope t) ! 0 = take 2 (sanitizeScope s) ! 0"
      and "take 2 (sanitizeScope t) ! 1 = take 2 (sanitizeScope s) ! 1"
      using eq by simp_all
    then have "sanitizeScope t ! 0 = sanitizeScope s ! 0"
      and "sanitizeScope t ! 1 = sanitizeScope s ! 1"
      by simp_all
    then show ?thesis using name [OF t] name [OF s] by simp
  qed
  show "sanitizedModIdWithFile upper s
          = upper [sanitizeScope s ! 0] @ [sanitizeScope s ! 1] @ ''File''
        \<and> (\<forall>t. 2 \<le> length t \<and> take 2 (sanitizeScope t) = take 2 (sanitizeScope s) \<longrightarrow>
              sanitizedModIdWithFile upper t = sanitizedModIdWithFile upper s
              \<and> parseFileScope upper win (ScopeName t) = parseFileScope upper win (ScopeName s))"
    using name [OF s] same by (simp add: parseFileScope_def)
qed

theorem sanitizedModIdWithFile_two_chars_witness:
  "sanitizedModIdWithFile asciiUpper ''net-switch'' = ''NeFile''
   \<and> sanitizedModIdWithFile asciiUpper ''nerd.fonts'' = ''NeFile''
   \<and> parseFileScope asciiUpper [(''$NeFile'', True)] (ScopeName ''nerd.fonts'')
       = parseFileScope asciiUpper [(''$NeFile'', True)] (ScopeName ''net-switch'')"
proof -
  have l: "2 \<le> length ''net-switch''" by simp
  have up: "asciiUpper ''n'' = ''N''" by code_simp
  from sanitizedModIdWithFile_two_chars [of "''net-switch''" asciiUpper "[(''$NeFile'', True)]"] l
  have a: "sanitizedModIdWithFile asciiUpper ''net-switch''
             = asciiUpper [sanitizeScope ''net-switch'' ! 0] @ [sanitizeScope ''net-switch'' ! 1] @ ''File''"
    and b: "\<forall>t. 2 \<le> length t \<and> take 2 (sanitizeScope t) = take 2 (sanitizeScope ''net-switch'') \<longrightarrow>
           sanitizedModIdWithFile asciiUpper t = sanitizedModIdWithFile asciiUpper ''net-switch''
           \<and> parseFileScope asciiUpper [(''$NeFile'', True)] (ScopeName t)
               = parseFileScope asciiUpper [(''$NeFile'', True)] (ScopeName ''net-switch'')"
    by blast+
  have c: "2 \<le> length ''nerd.fonts'' \<and> take 2 (sanitizeScope ''nerd.fonts'') = take 2 (sanitizeScope ''net-switch'')"
    by simp
  from a up have a': "sanitizedModIdWithFile asciiUpper ''net-switch'' = ''NeFile''" by simp
  from b c a' show ?thesis by metis
qed

section \<open>Absent host, host exceptions, version gates, argument checks\<close>

text \<open>
  C1, as the code has it. Outside the host (\<open>isMMRL\<close> is false) every read returns its
  default and leaves the world as it was: no host call, no log entry. The defaults are
  \<open>null\<close> for file contents, listings and the manager records, \<open>0\<close> for \<open>size\<close>,
  \<open>stat\<close> and the window insets, \<open>false\<close> for the existence and boolean checks with
  one exception, \<open>hasAccessToAdvancedKernelSuAPI\<close>, which returns \<open>true\<close>, and \<open>-1\<close> for
  \<open>sdk\<close> and all the version metadata.
\<close>

theorem absent_host_defaults:
  "\<not> isMMRL this \<longrightarrow>
     FileSystem_read this path bytes w = (Inr (Null), w)
   \<and> FileSystem_readAsBase64 this path w = (Inr (Null), w)
   \<and> FileSystem_list this path delimiter w = (Inr (Null), w)
   \<and> FileSystem_size this path recursive w = (Inr (Num 0), w)
   \<and> FileSystem_stat this path totl w = (Inr (Num 0), w)
   \<and> FileSystem_exists this path w = (Inr (Bool False), w)
   \<and> FileSystem_isDirectory this path w = (Inr (Bool False), w)
   \<and> FileSystem_isFile this path w = (Inr (Bool False), w)
   \<and> FileSystem_canExecute this path w = (Inr (Bool False), w)
   \<and> FileSystem_canRead this path w = (Inr (Bool False), w)
   \<and> FileSystem_isHidden this path w = (Inr (Bool False), w)
   \<and> MMRLInterface_manager this w = (Inr (Null), w)
   \<and> MMRLInterface_mmrl this w = (Inr (Null), w)
   \<and> MMRLInterface_hasAccessToFileSystem this w = (Inr (Bool False), w)
   \<and> MMRLInterface_hasAccessToAdvancedKernelSuAPI this w = (Inr (Bool True), w)
   \<and> MMRLInterface_windowTopInset this w = (Inr (Num 0), w)
   \<and> MMRLInterface_windowBottomInset this w = (Inr (Num 0), w)
   \<and> MMRLInterface_lightNavigationBars this w = (Inr (Bool False), w)
   \<and> MMRLInterface_darkMode this w = (Inr (Bool False), w)
   \<and> MMRLInterface_lightStatusBars this w = (Inr (Bool False), w)
   \<and> MMRLInterface_sdk this w = (Inr (Num (- 1)), w)
   \<and> VersionInterface_versionCode this w = (Inr (Num (- 1)), w)
   \<and> VersionInterface_versionName this w = (Inr (Num (- 1)), w)
   \<and> VersionInterface_applicationId this w = (Inr (Num (- 1)), w)
   \<and> VersionInterface_buildType this w = (Inr (Num (- 1)), w)
   \<and> VersionInterface_isDevVersion this w = (Inr (Bool False), w)
   \<and> VersionInterface_isGooglePlayBuild this w = (Inr (Bool False), w)
   \<and> VersionInterface_platform this w = (Inr (Num (- 1)), w)
   \<and> VersionInterface_rootVersionCode this w = (Inr (Num (- 1)), w)
   \<and> VersionInterface_rootVersionName this w = (Inr (Num (- 1)), w)"
  by (simp add: FileSystem_canExecute_def FileSystem_canRead_def FileSystem_exists_def FileSystem_isDirectory_def FileSystem_isFile_def FileSystem_isHidden_def FileSystem_list_def FileSystem_readAsBase64_def FileSystem_read_def FileSystem_size_def FileSystem_stat_def MMRLInterface_darkMode_def MMRLInterface_hasAccessToAdvancedKernelSuAPI_def MMRLInterface_hasAccessToFileSystem_def MMRLInterface_lightNavigationBars_def MMRLInterface_lightStatusBars_def MMRLInterface_manager_def MMRLInterface_mmrl_def MMRLInterface_sdk_def MMRLInterface_windowBottomInset_def MMRLInterface_windowTopInset_def VersionInterface_applicationId_def VersionInterface_buildType_def VersionInterface_isDevVersion_def VersionInterface_isGooglePlayBuild_def VersionInterface_platform_def VersionInterface_rootVersionCode_def VersionInterface_rootVersionName_def VersionInterface_versionCode_def VersionInterface_versionName_def
       defaultNumber_def defaultString_def)

theorem absent_host_defaults_witness:
  "\<not> isMMRL browserAccessor
   \<and> FileSystem_read browserAccessor ''/data/adb/modules'' False newWorld = (Inr Null, newWorld)
   \<and> FileSystem_size browserAccessor ''/data/adb/modules'' False newWorld = (Inr (Num 0), newWorld)
   \<and> VersionInterface_versionCode browserAccessor newWorld = (Inr (Num (- 1)), newWorld)
   \<and> events newWorld = []"
proof -
  have a: "\<not> isMMRL browserAccessor" by (simp add: isMMRL_def browserAccessor_def)
  from a absent_host_defaults [of browserAccessor "''/data/adb/modules''" False newWorld]
  show ?thesis by (simp add: newWorld_def)
qed

text \<open>
  C1 as stated fails for one boolean property: outside the host,
  \<open>hasAccessToAdvancedKernelSuAPI\<close> is \<open>true\<close>, not \<open>false\<close>.
\<close>

theorem absent_host_boolean_counterexample:
  "\<not> isMMRL browserAccessor
   \<and> MMRLInterface_hasAccessToAdvancedKernelSuAPI browserAccessor newWorld \<noteq> (Inr (Bool False), newWorld)
   \<and> MMRLInterface_hasAccessToAdvancedKernelSuAPI browserAccessor newWorld = (Inr (Bool True), newWorld)"
  by (simp add: MMRLInterface_hasAccessToAdvancedKernelSuAPI_def isMMRL_def browserAccessor_def)

lemma SuFile_try_catches:
  "fn w = (Inl e, w') \<Longrightarrow> SuFile_try fallback fn errorMsg w = (Inr fallback, console_error (errorMsg @ '':'') e w')"
  by (simp add: SuFile_try_def)

text \<open>
  C4, as the code has it. A method of \<open>SuFile\<close> runs its host call inside \<open>_try\<close>: an
  exception thrown by the call is caught, logged with \<open>console.error\<close> and replaced by
  the method's fallback (\<open>null\<close>, \<open>false\<close>, \<open>0\<close> or \<open>"[]"\<close>). The methods of
  \<open>FileSystem\<close>, \<open>MMRLInterface\<close>, \<open>VersionInterface\<close> and \<open>Toast\<close> have no handler: once
  their guards have let the call through, an exception thrown by the host call
  reaches the caller, and nothing is logged.
\<close>

theorem exceptions_caught_by_SuFile_only:
  "((callOn (sf_fileInterface file) ''read'' [Str (sf_path file)] w = (Inl e, w') \<longrightarrow>
        (\<exists>msg. SuFile_read file w = (Inr (Null), console_error msg e w')))
   \<and> (callOn (sf_fileInterface file) ''write'' [Str (sf_path file), Str data] w = (Inl e, w') \<longrightarrow>
        (\<exists>msg. SuFile_write file data w = (Inr (Bool False), console_error msg e w')))
   \<and> (callOn (sf_fileInterface file) ''readAsBase64'' [Str (sf_path file)] w = (Inl e, w') \<longrightarrow>
        (\<exists>msg. SuFile_readAsBase64 file w = (Inr (Null), console_error msg e w')))
   \<and> (callOn (sf_fileInterface file) ''list'' [Str (sf_path file), Str delimiter] w = (Inl e, w') \<longrightarrow>
        (\<exists>msg. SuFile_list file delimiter w = (Inr (Str ''[]''), console_error msg e w')))
   \<and> (callOn (sf_fileInterface file) ''size'' [Str (sf_path file), Bool recursive] w = (Inl e, w') \<longrightarrow>
        (\<exists>msg. SuFile_size file recursive w = (Inr (Num 0), console_error msg e w')))
   \<and> (callOn (sf_fileInterface file) ''delete'' [Str (sf_path file)] w = (Inl e, w') \<longrightarrow>
        (\<exists>msg. SuFile_delete file w = (Inr (Bool False), console_error msg e w')))
   \<and> (callOn (sf_fileInterface file) ''exists'' [Str (sf_path file)] w = (Inl e, w') \<longrightarrow>
        (\<exists>msg. SuFile_exists file w = (Inr (Bool False), console_error msg e w')))
   \<and> (callOn (sf_fileInterface file) ''isDirectory'' [Str (sf_path file)] w = (Inl e, w') \<longrightarrow>
        (\<exists>msg. SuFile_isDirectory file w = (Inr (Bool False), console_error msg e w')))
   \<and> (callOn (sf_fileInterface file) ''isFile'' [Str (sf_path file)] w = (Inl e, w') \<longrightarrow>
        (\<exists>msg. SuFile_isFile file w = (Inr (Bool False), console_error msg e w')))
   \<and> (callOn (sf_fileInterface file) ''isSymLink'' [Str (sf_path file)] w = (Inl e, w') \<longrightarrow>
        (\<exists>msg. SuFile_isSymLink file w = (Inr (Bool False), console_error msg e w')))
   \<and> (callOn (sf_fileInterface file) ''mkdir'' [Str (sf_path file)] w = (Inl e, w') \<longrightarrow>
        (\<exists>msg. SuFile_mkdir file w = (Inr (Bool False), console_error msg e w')))
   \<and> (callOn (sf_fileInterface file) ''mkdirs'' [Str (sf_path file)] w = (Inl e, w') \<longrightarrow>
        (\<exists>msg. SuFile_mkdirs file w = (Inr (Bool False), console_error msg e w')))
   \<and> (callOn (sf_fileInterface file) ''createNewFile'' [Str (sf_path file)] w = (Inl e, w') \<longrightarrow>
        (\<exists>msg. SuFile_createNewFile file w = (Inr (Bool False), console_error msg e w')))
   \<and> (callOn (sf_fileInterface file) ''renameTo'' [Str (sf_path file), Str dest] w = (Inl e, w') \<longrightarrow>
        (\<exists>msg. SuFile_renameTo file dest w = (Inr (Bool False), console_error msg e w')))
   \<and> (callOn (sf_fileInterface file) ''copyTo'' [Str (sf_path file), Str dest, Bool overwrite] w = (Inl e, w') \<longrightarrow>
        (\<exists>msg. SuFile_copyTo file dest overwrite w = (Inr (Bool False), console_error msg e w')))
   \<and> (callOn (sf_fileInterface file) ''canExecute'' [Str (sf_path file)] w = (Inl e, w') \<longrightarrow>
        (\<exists>msg. SuFile_canExecute file w = (Inr (Bool False), console_error msg e w')))
   \<and> (callOn (sf_fileInterface file) ''canWrite'' [Str (sf_path file)] w = (Inl e, w') \<longrightarrow>
        (\<exists>msg. SuFile_canWrite file w = (Inr (Bool False), console_error msg e w')))
   \<and> (callOn (sf_fileInterface file) ''canRead'' [Str (sf_path file)] w = (Inl e, w') \<longrightarrow>
        (\<exists>msg. SuFile_canRead file w = (Inr (Bool False), console_error msg e w')))
   \<and> (callOn (sf_fileInterface file) ''isHidden'' [Str (sf_path file)] w = (Inl e, w') \<longrightarrow>
        (\<exists>msg. SuFile_isHidden file w = (Inr (Bool False), console_error msg e w'))))
   \<and> ((isMMRL this \<and> callOn (interface this) ''read'' [Str path, Bool bytes] w = (Inl e, w') \<longrightarrow>
        FileSystem_read this path bytes w = (Inl e, w'))
   \<and> (isMMRL this \<and> callOn (interface this) ''write'' [Str path, Str data] w = (Inl e, w') \<longrightarrow>
        FileSystem_write this path data w = (Inl e, w'))
   \<and> (isMMRL this \<and> callOn (interface this) ''readAsBase64'' [Str path] w = (Inl e, w') \<longrightarrow>
        FileSystem_readAsBase64 this path w = (Inl e, w'))
   \<and> (isMMRL this \<and> callOn (interface this) ''list'' [Str path, Str delimiter] w = (Inl e, w') \<longrightarrow>
        FileSystem_list this path delimiter w = (Inl e, w'))
   \<and> (isMMRL this \<and> callOn (interface this) ''size'' [Str path, Bool recursive] w = (Inl e, w') \<longrightarrow>
        FileSystem_size this path recursive w = (Inl e, w'))
   \<and> (isMMRL this \<and> callOn (interface this) ''stat'' [Str path, Bool totl] w = (Inl e, w') \<longrightarrow>
        FileSystem_stat this path totl w = (Inl e, w'))
   \<and> (isMMRL this \<and> callOn (interface this) ''delete'' [Str path] w = (Inl e, w') \<longrightarrow>
        FileSystem_delete this path w = (Inl e, w'))
   \<and> (isMMRL this \<and> callOn (interface this) ''exists'' [Str path] w = (Inl e, w') \<longrightarrow>
        FileSystem_exists this path w = (Inl e, w'))
   \<and> (isMMRL this \<and> hasRequiredVersion this advancedFsOperations
        \<and> callOn (interface this) ''isDirectory'' [Str path] w = (Inl e, w') \<longrightarrow>
        FileSystem_isDirectory this path w = (Inl e, w'))
   \<and> (isMMRL this \<and> hasRequiredVersion this advancedFsOperations
        \<and> callOn (interface this) ''isFile'' [Str path] w = (Inl e, w') \<longrightarrow>
        FileSystem_isFile this path w = (Inl e, w'))
   \<and> (isMMRL this \<and> hasRequiredVersion this advancedFsOperations
        \<and> callOn (interface this) ''mkdir'' [Str path] w = (Inl e, w') \<longrightarrow>
        FileSystem_mkdir this path w = (Inl e, w'))
   \<and> (isMMRL this \<and> hasRequiredVersion this advancedFsOperations
        \<and> callOn (interface this) ''mkdirs'' [Str path] w = (Inl e, w') \<longrightarrow>
        FileSystem_mkdirs this path w = (Inl e, w'))
   \<and> (isMMRL this \<and> hasRequiredVersion this advancedFsOperations
        \<and> callOn (interface this) ''createNewFile'' [Str path] w = (Inl e, w') \<longrightarrow>
        FileSystem_createNewFile this path w = (Inl e, w'))
   \<and> (isMMRL this \<and> hasRequiredVersion this advancedFsOperations
        \<and> callOn (interface this) ''renameTo'' [Str path, Str dest] w = (Inl e, w') \<longrightarrow>
        FileSystem_renameTo this path dest w = (Inl e, w'))
   \<and> (isMMRL this \<and> hasRequiredVersion this advancedFsOperations
        \<and> callOn (interface this) ''copyTo'' [Str path, Str dest, Bool overwrite] w = (Inl e, w') \<longrightarrow>
        FileSystem_copyTo this path dest overwrite w = (Inl e, w'))
   \<and> (isMMRL this \<and> hasRequiredVersion this advancedFsOperations
        \<and> callOn (interface this) ''canExecute'' [Str path] w = (Inl e, w') \<longrightarrow>
        FileSystem_canExecute this path w = (Inl e, w'))
   \<and> (isMMRL this \<and> hasRequiredVersion this advancedFsOperations
        \<and> callOn (interface this) ''canRead'' [Str path] w = (Inl e, w') \<longrightarrow>
        FileSystem_canRead this path w = (Inl e, w'))
   \<and> (isMMRL this \<and> hasRequiredVersion this advancedFsOperations
        \<and> callOn (interface this) ''isHidden'' [Str path] w = (Inl e, w') \<longrightarrow>
        FileSystem_isHidden this path w = (Inl e, w'))
   \<and> (isMMRL this \<and> callOn (interface this) ''getHasAccessToFileSystem'' [] w = (Inl e, w') \<longrightarrow>
        MMRLInterface_hasAccessToFileSystem this w = (Inl e, w'))
   \<and> (isMMRL this \<and> callOn (interface this) ''getHasAccessToAdvancedKernelSuAPI'' [] w = (Inl e, w') \<longrightarrow>
        MMRLInterface_hasAccessToAdvancedKernelSuAPI this w = (Inl e, w'))
   \<and> (isMMRL this \<and> callOn (interface this) ''getWindowTopInset'' [] w = (Inl e, w') \<longrightarrow>
        MMRLInterface_windowTopInset this w = (Inl e, w'))
   \<and> (isMMRL this \<and> callOn (interface this) ''getWindowBottomInset'' [] w = (Inl e, w') \<longrightarrow>
        MMRLInterface_windowBottomInset this w = (Inl e, w'))
   \<and> (isMMRL this \<and> callOn (interface this) ''isLightNavigationBars'' [] w = (Inl e, w') \<longrightarrow>
        MMRLInterface_lightNavigationBars this w = (Inl e, w'))
   \<and> (isMMRL this \<and> callOn (interface this) ''isDarkMode'' [] w = (Inl e, w') \<longrightarrow>
        MMRLInterface_darkMode this w = (Inl e, w'))
   \<and> (isMMRL this \<and> callOn (interface this) ''isLightStatusBars'' [] w = (Inl e, w') \<longrightarrow>
        MMRLInterface_lightStatusBars this w = (Inl e, w'))
   \<and> (isMMRL this \<and> callOn (interface this) ''getSdk'' [] w = (Inl e, w') \<longrightarrow>
        MMRLInterface_sdk this w = (Inl e, w'))
   \<and> (isMMRL this \<and> callOn (interface this) ''getManager'' [] w = (Inl e, w') \<longrightarrow>
        MMRLInterface_manager this w = (Inl e, w'))
   \<and> (isMMRL this \<and> callOn (interface this) ''getMmrl'' [] w = (Inl e, w') \<longrightarrow>
        MMRLInterface_mmrl this w = (Inl e, w'))
   \<and> (isMMRL this \<and> interface this \<noteq> None
        \<and> callChain (interface this) ''getBuildConfig'' ''getVersionCode'' w = (Inl e, w') \<longrightarrow>
        VersionInterface_versionCode this w = (Inl e, w'))
   \<and> (isMMRL this \<and> interface this \<noteq> None
        \<and> callChain (interface this) ''getBuildConfig'' ''getVersionName'' w = (Inl e, w') \<longrightarrow>
        VersionInterface_versionName this w = (Inl e, w'))
   \<and> (isMMRL this \<and> interface this \<noteq> None
        \<and> callChain (interface this) ''getBuildConfig'' ''getApplicationId'' w = (Inl e, w') \<longrightarrow>
        VersionInterface_applicationId this w = (Inl e, w'))
   \<and> (isMMRL this \<and> interface this \<noteq> None
        \<and> callChain (interface this) ''getBuildConfig'' ''getBuildType'' w = (Inl e, w') \<longrightarrow>
        VersionInterface_buildType this w = (Inl e, w'))
   \<and> (isMMRL this \<and> interface this \<noteq> None
        \<and> callChain (interface this) ''getBuildConfig'' ''isDevVersion'' w = (Inl e, w') \<longrightarrow>
        VersionInterface_isDevVersion this w = (Inl e, w'))
   \<and> (isMMRL this \<and> interface this \<noteq> None
        \<and> callChain (interface this) ''getBuildConfig'' ''isGooglePlayBuild'' w = (Inl e, w') \<longrightarrow>
        VersionInterface_isGooglePlayBuild this w = (Inl e, w'))
   \<and> (isMMRL this \<and> interface this \<noteq> None
        \<and> callChain (interface this) ''getRootConfig'' ''getPlatform'' w = (Inl e, w') \<longrightarrow>
        VersionInterface_platform this w = (Inl e, w'))
   \<and> (isMMRL this \<and> interface this \<noteq> None
        \<and> callChain (interface this) ''getRootConfig'' ''getVersionCode'' w = (Inl e, w') \<longrightarrow>
        VersionInterface_rootVersionCode this w = (Inl e, w'))
   \<and> (isMMRL this \<and> interface this \<noteq> None
        \<and> callChain (interface this) ''getRootConfig'' ''getVersionName'' w = (Inl e, w') \<longrightarrow>
        VersionInterface_rootVersionName this w = (Inl e, w'))
   \<and> (isMMRL (toast_super toast) \<and> truthy (toastBuilder toast)
        \<and> hasRequiredVersion (toast_super toast) Toast_requireVersion
        \<and> typeof text = ''string''
        \<and> callOn (interface (toast_super toast)) ''toastBuilder().setText'' [text] w = (Inl e, w') \<longrightarrow>
        Toast_setText toast text w = (Inl e, w'))
   \<and> (isMMRL (toast_super toast) \<and> truthy (toastBuilder toast)
        \<and> hasRequiredVersion (toast_super toast) Toast_requireVersion
        \<and> (dur = Num LENGTH_SHORT \<or> dur = Num LENGTH_LONG)
        \<and> callOn (interface (toast_super toast)) ''toastBuilder().setDuration'' [dur] w = (Inl e, w') \<longrightarrow>
        Toast_setDuration toast dur w = (Inl e, w'))
   \<and> (isMMRL (toast_super toast) \<and> truthy (toastBuilder toast)
        \<and> hasRequiredVersion (toast_super toast) Toast_requireVersion
        \<and> typeof gravity = ''number'' \<and> typeof xOffset = ''number'' \<and> typeof yOffset = ''number''
        \<and> callOn (interface (toast_super toast)) ''toastBuilder().setGravity'' [gravity, xOffset, yOffset] w = (Inl e, w') \<longrightarrow>
        Toast_setGravity toast gravity xOffset yOffset w = (Inl e, w'))
   \<and> (isMMRL (toast_super toast) \<and> truthy (toastBuilder toast)
        \<and> hasRequiredVersion (toast_super toast) Toast_requireVersion
        \<and> callOn (interface (toast_super toast)) ''toastBuilder().show'' [] w = (Inl e, w') \<longrightarrow>
        Toast_show toast w = (Inl e, w'))
   \<and> (isMMRL (toast_super toast) \<and> truthy (toastBuilder toast)
        \<and> hasRequiredVersion (toast_super toast) Toast_requireVersion
        \<and> callOn (interface (toast_super toast)) ''toastBuilder().cancel'' [] w = (Inl e, w') \<longrightarrow>
        Toast_cancel toast w = (Inl e, w'))
   \<and> (isMMRL this \<and> callOn (interface this) ''setLightNavigationBars'' [Bool light] w = (Inl e, w') \<longrightarrow>
        MMRLInterface_set_lightNavigationBars this light w = (Inl e, w'))
   \<and> (isMMRL this \<and> callOn (interface this) ''setLightStatusBars'' [Bool light] w = (Inl e, w') \<longrightarrow>
        MMRLInterface_set_lightStatusBars this light w = (Inl e, w'))
   \<and> (isMMRL this \<and> callOn (interface this) ''shareText'' [Str text'] w = (Inl e, w') \<longrightarrow>
        MMRLInterface_shareText this text' None w = (Inl e, w'))
   \<and> (isMMRL this \<and> callOn (interface this) ''shareText'' [Str text', Str mime] w = (Inl e, w') \<longrightarrow>
        MMRLInterface_shareText this text' (Some mime) w = (Inl e, w'))
   \<and> (isMMRL this \<and> hasRequiredVersion this requireVersionNewAPIs
        \<and> callOn (interface this) ''requestAdvancedKernelSUAPI'' [] w = (Inl e, w') \<longrightarrow>
        MMRLInterface_requestAdvancedKernelSUAPI this w = (Inl e, w'))
   \<and> (isMMRL this \<and> hasRequiredVersion this requireVersionNewAPIs
        \<and> callOn (interface this) ''requestFileSystemAPI'' [] w = (Inl e, w') \<longrightarrow>
        MMRLInterface_requestFileSystemAPI this w = (Inl e, w')))"
  by (intro conjI impI;
      (simp add: FileSystem_read_def FileSystem_write_def FileSystem_readAsBase64_def FileSystem_list_def FileSystem_size_def FileSystem_stat_def FileSystem_delete_def FileSystem_exists_def FileSystem_isDirectory_def FileSystem_isFile_def FileSystem_mkdir_def FileSystem_mkdirs_def FileSystem_createNewFile_def FileSystem_renameTo_def FileSystem_copyTo_def FileSystem_canExecute_def FileSystem_canRead_def FileSystem_isHidden_def callVoid_def
         MMRLInterface_hasAccessToFileSystem_def MMRLInterface_hasAccessToAdvancedKernelSuAPI_def MMRLInterface_windowTopInset_def MMRLInterface_windowBottomInset_def MMRLInterface_lightNavigationBars_def MMRLInterface_darkMode_def MMRLInterface_lightStatusBars_def MMRLInterface_sdk_def MMRLInterface_manager_def MMRLInterface_mmrl_def VersionInterface_versionCode_def VersionInterface_versionName_def VersionInterface_applicationId_def VersionInterface_buildType_def VersionInterface_isDevVersion_def VersionInterface_isGooglePlayBuild_def VersionInterface_platform_def VersionInterface_rootVersionCode_def VersionInterface_rootVersionName_def
         Toast_setText_def Toast_setDuration_def Toast_setGravity_def Toast_show_def Toast_cancel_def
         MMRLInterface_set_lightNavigationBars_def MMRLInterface_set_lightStatusBars_def
         MMRLInterface_shareText_def MMRLInterface_requestAdvancedKernelSUAPI_def
         MMRLInterface_requestFileSystemAPI_def versionChecked_def Let_def)?;
      (auto simp add: SuFile_read_def SuFile_write_def SuFile_readAsBase64_def SuFile_list_def SuFile_size_def SuFile_delete_def SuFile_exists_def SuFile_isDirectory_def SuFile_isFile_def SuFile_isSymLink_def SuFile_mkdir_def SuFile_mkdirs_def SuFile_createNewFile_def SuFile_renameTo_def SuFile_copyTo_def SuFile_canExecute_def SuFile_canWrite_def SuFile_canRead_def SuFile_isHidden_def
         dest: SuFile_try_catches)?)

theorem exceptions_caught_by_SuFile_only_witness:
  "SuFile_read \<lparr>sf_path = ''/sdcard/a.txt'', sf_interface = ''$abFileInputStream'', sf_fileInterface = Some throwingHost\<rparr> newWorld
     = (Inr Null, \<lparr>host_state = (), events =
          [HostCall ''read'' [Str ''/sdcard/a.txt''],
           ConsoleError (''Error while reading from '' @ quoted ''/sdcard/a.txt'' @ '':'') (HostException ''java.io.IOException'')]\<rparr>)
   \<and> FileSystem_read (hostAccessor throwingHost 33200) ''/sdcard/a.txt'' False newWorld
     = (Inl (HostException ''java.io.IOException''),
        \<lparr>host_state = (), events = [HostCall ''read'' [Str ''/sdcard/a.txt'', Bool False]]\<rparr>)"
proof -
  let ?f = "\<lparr>sf_path = ''/sdcard/a.txt'', sf_interface = ''$abFileInputStream'', sf_fileInterface = Some throwingHost\<rparr>"
  let ?w1 = "\<lparr>host_state = (), events = [HostCall ''read'' [Str ''/sdcard/a.txt'']]\<rparr>"
  let ?w2 = "\<lparr>host_state = (), events = [HostCall ''read'' [Str ''/sdcard/a.txt'', Bool False]]\<rparr>"
  let ?e = "HostException ''java.io.IOException''"
  have c1: "callOn (sf_fileInterface ?f) ''read'' [Str (sf_path ?f)] newWorld = (Inl ?e, ?w1)"
    by (simp add: callOn_def throwingHost_def newWorld_def)
  have c2: "isMMRL (hostAccessor throwingHost 33200)
     \<and> callOn (interface (hostAccessor throwingHost 33200)) ''read'' [Str ''/sdcard/a.txt'', Bool False] newWorld = (Inl ?e, ?w2)"
    by (simp add: callOn_def throwingHost_def newWorld_def hostAccessor_def isMMRL_def)
  from exceptions_caught_by_SuFile_only [THEN conjunct1, THEN conjunct1, THEN mp, OF c1]
  have "\<exists>msg. SuFile_read ?f newWorld = (Inr Null, console_error msg ?e ?w1)" .
  moreover from exceptions_caught_by_SuFile_only [THEN conjunct2, THEN conjunct1, THEN mp, OF c2]
  have "FileSystem_read (hostAccessor throwingHost 33200) ''/sdcard/a.txt'' False newWorld = (Inl ?e, ?w2)" .
  ultimately show ?thesis
    by (simp add: SuFile_read_def SuFile_try_def callOn_def throwingHost_def newWorld_def console_error_def)
qed

text \<open>
  C4 as stated fails for \<open>FileSystem.read\<close>: inside the host, with a host object that
  throws, the exception comes back to the caller; no fallback value, no log entry.
\<close>

theorem FileSystem_read_propagates_counterexample:
  "FileSystem_read (hostAccessor throwingHost 33200) ''/sdcard/a.txt'' False newWorld
     = (Inl (HostException ''java.io.IOException''),
        \<lparr>host_state = (), events = [HostCall ''read'' [Str ''/sdcard/a.txt'', Bool False]]\<rparr>)"
  by (simp add: FileSystem_read_def callOn_def throwingHost_def newWorld_def hostAccessor_def isMMRL_def)

lemma console_warn_warned: "console_warn msg w = warned [msg] w"
  by (simp add: console_warn_def warned_def)

lemma console_warn_twice: "console_warn msg' (console_warn msg w) = warned [msg, msg'] w"
  by (simp add: console_warn_def warned_def)

lemma warned_once: "\<exists>msgs. msgs \<noteq> [] \<and> console_warn msg w = warned msgs w"
  using console_warn_warned [of msg w] by (intro exI [of _ "[msg]"]) simp

lemma warned_twice:
  "\<exists>msgs. msgs \<noteq> [] \<and> console_warn msg' (console_warn msg w) = warned msgs w"
  using console_warn_twice [of msg' msg w] by (intro exI [of _ "[msg, msg']"]) simp

text \<open>
  C6. The host is present: the context is recognized as MMRL and, for a toast, its
  builder has been obtained from the host. When the version code the host reports is
  below the threshold of a version-gated method, the method returns its default, and
  the world after it differs from the world before only by warnings on the console, at
  least one: no host call is made. When the version code is at or above the threshold
  the call goes to the host: the \<open>FileSystem\<close> and \<open>MMRLInterface\<close> methods are the host
  call itself, the \<open>Toast\<close> methods, once the arguments have passed their checks,
  forward to the toast builder.
\<close>

theorem version_gate:
  "((isMMRL this \<and> reportedVersionCode this < advancedFsOperations \<longrightarrow>
        (\<exists>msgs. msgs \<noteq> [] \<and> FileSystem_isDirectory this path w = (Inr (Bool False), warned msgs w)))
   \<and> (isMMRL this \<and> reportedVersionCode this < advancedFsOperations \<longrightarrow>
        (\<exists>msgs. msgs \<noteq> [] \<and> FileSystem_isFile this path w = (Inr (Bool False), warned msgs w)))
   \<and> (isMMRL this \<and> reportedVersionCode this < advancedFsOperations \<longrightarrow>
        (\<exists>msgs. msgs \<noteq> [] \<and> FileSystem_mkdir this path w = (Inr (Bool False), warned msgs w)))
   \<and> (isMMRL this \<and> reportedVersionCode this < advancedFsOperations \<longrightarrow>
        (\<exists>msgs. msgs \<noteq> [] \<and> FileSystem_mkdirs this path w = (Inr (Bool False), warned msgs w)))
   \<and> (isMMRL this \<and> reportedVersionCode this < advancedFsOperations \<longrightarrow>
        (\<exists>msgs. msgs \<noteq> [] \<and> FileSystem_createNewFile this path w = (Inr (Bool False), warned msgs w)))
   \<and> (isMMRL this \<and> reportedVersionCode this < advancedFsOperations \<longrightarrow>
        (\<exists>msgs. msgs \<noteq> [] \<and> FileSystem_renameTo this path dest w = (Inr (Bool False), warned msgs w)))
   \<and> (isMMRL this \<and> reportedVersionCode this < advancedFsOperations \<longrightarrow>
        (\<exists>msgs. msgs \<noteq> [] \<and> FileSystem_copyTo this path dest overwrite w = (Inr (Bool False), warned msgs w)))
   \<and> (isMMRL this \<and> reportedVersionCode this < advancedFsOperations \<longrightarrow>
        (\<exists>msgs. msgs \<noteq> [] \<and> FileSystem_canExecute this path w = (Inr (Bool False), warned msgs w)))
   \<and> (isMMRL this \<and> reportedVersionCode this < advancedFsOperations \<longrightarrow>
        (\<exists>msgs. msgs \<noteq> [] \<and> FileSystem_canRead this path w = (Inr (Bool False), warned msgs w)))
   \<and> (isMMRL this \<and> reportedVersionCode this < advancedFsOperations \<longrightarrow>
        (\<exists>msgs. msgs \<noteq> [] \<and> FileSystem_isHidden this path w = (Inr (Bool False), warned msgs w)))
   \<and> (isMMRL this \<and> reportedVersionCode this < requireVersionNewAPIs \<longrightarrow>
        (\<exists>msgs. msgs \<noteq> [] \<and> MMRLInterface_requestAdvancedKernelSUAPI this w = (Inr Undefined, warned msgs w)))
   \<and> (isMMRL this \<and> reportedVersionCode this < requireVersionNewAPIs \<longrightarrow>
        (\<exists>msgs. msgs \<noteq> [] \<and> MMRLInterface_requestFileSystemAPI this w = (Inr Undefined, warned msgs w)))
   \<and> (isMMRL (toast_super toast) \<and> truthy (toastBuilder toast)
        \<and> reportedVersionCode (toast_super toast) < Toast_requireVersion \<longrightarrow>
        (\<exists>msgs. msgs \<noteq> [] \<and> Toast_setText toast text w = (Inr toast, warned msgs w)))
   \<and> (isMMRL (toast_super toast) \<and> truthy (toastBuilder toast)
        \<and> reportedVersionCode (toast_super toast) < Toast_requireVersion \<longrightarrow>
        (\<exists>msgs. msgs \<noteq> [] \<and> Toast_setDuration toast dur w = (Inr toast, warned msgs w)))
   \<and> (isMMRL (toast_super toast) \<and> truthy (toastBuilder toast)
        \<and> reportedVersionCode (toast_super toast) < Toast_requireVersion \<longrightarrow>
        (\<exists>msgs. msgs \<noteq> [] \<and> Toast_setGravity toast gravity xOffset yOffset w = (Inr toast, warned msgs w)))
   \<and> (isMMRL (toast_super toast) \<and> truthy (toastBuilder toast)
        \<and> reportedVersionCode (toast_super toast) < Toast_requireVersion \<longrightarrow>
        (\<exists>msgs. msgs \<noteq> [] \<and> Toast_show toast w = (Inr toast, warned msgs w)))
   \<and> (isMMRL (toast_super toast) \<and> truthy (toastBuilder toast)
        \<and> reportedVersionCode (toast_super toast) < Toast_requireVersion \<longrightarrow>
        (\<exists>msgs. msgs \<noteq> [] \<and> Toast_cancel toast w = (Inr toast, warned msgs w))))
   \<and> ((isMMRL this \<and> advancedFsOperations \<le> reportedVersionCode this \<longrightarrow>
        FileSystem_isDirectory this path w = callOn (interface this) ''isDirectory'' [Str path] w)
   \<and> (isMMRL this \<and> advancedFsOperations \<le> reportedVersionCode this \<longrightarrow>
        FileSystem_isFile this path w = callOn (interface this) ''isFile'' [Str path] w)
   \<and> (isMMRL this \<and> advancedFsOperations \<le> reportedVersionCode this \<longrightarrow>
        FileSystem_mkdir this path w = callOn (interface this) ''mkdir'' [Str path] w)
   \<and> (isMMRL this \<and> advancedFsOperations \<le> reportedVersionCode this \<longrightarrow>
        FileSystem_mkdirs this path w = callOn (interface this) ''mkdirs'' [Str path] w)
   \<and> (isMMRL this \<and> advancedFsOperations \<le> reportedVersionCode this \<longrightarrow>
        FileSystem_createNewFile this path w = callOn (interface this) ''createNewFile'' [Str path] w)
   \<and> (isMMRL this \<and> advancedFsOperations \<le> reportedVersionCode this \<longrightarrow>
        FileSystem_renameTo this path dest w = callOn (interface this) ''renameTo'' [Str path, Str dest] w)
   \<and> (isMMRL this \<and> advancedFsOperations \<le> reportedVersionCode this \<longrightarrow>
        FileSystem_copyTo this path dest overwrite w = callOn (interface this) ''copyTo'' [Str path, Str dest, Bool overwrite] w)
   \<and> (isMMRL this \<and> advancedFsOperations \<le> reportedVersionCode this \<longrightarrow>
        FileSystem_canExecute this path w = callOn (interface this) ''canExecute'' [Str path] w)
   \<and> (isMMRL this \<and> advancedFsOperations \<le> reportedVersionCode this \<longrightarrow>
        FileSystem_canRead this path w = callOn (interface this) ''canRead'' [Str path] w)
   \<and> (isMMRL this \<and> advancedFsOperations \<le> reportedVersionCode this \<longrightarrow>
        FileSystem_isHidden this path w = callOn (interface this) ''isHidden'' [Str path] w)
   \<and> (isMMRL this \<and> requireVersionNewAPIs \<le> reportedVersionCode this \<longrightarrow>
        MMRLInterface_requestAdvancedKernelSUAPI this w = callVoid (interface this) ''requestAdvancedKernelSUAPI'' [] w)
   \<and> (isMMRL this \<and> requireVersionNewAPIs \<le> reportedVersionCode this \<longrightarrow>
        MMRLInterface_requestFileSystemAPI this w = callVoid (interface this) ''requestFileSystemAPI'' [] w)
   \<and> (isMMRL (toast_super toast) \<and> truthy (toastBuilder toast)
        \<and> Toast_requireVersion \<le> reportedVersionCode (toast_super toast)
        \<and> typeof text = ''string'' \<longrightarrow>
        Toast_setText toast text w =
          (case callOn (interface (toast_super toast)) ''toastBuilder().setText'' [text] w of
             (Inl e, w') \<Rightarrow> (Inl e, w')
           | (Inr r, w') \<Rightarrow> (Inr (toast), w')))
   \<and> (isMMRL (toast_super toast) \<and> truthy (toastBuilder toast)
        \<and> Toast_requireVersion \<le> reportedVersionCode (toast_super toast)
        \<and> (dur = Num LENGTH_SHORT \<or> dur = Num LENGTH_LONG) \<longrightarrow>
        Toast_setDuration toast dur w =
          (case callOn (interface (toast_super toast)) ''toastBuilder().setDuration'' [dur] w of
             (Inl e, w') \<Rightarrow> (Inl e, w')
           | (Inr r, w') \<Rightarrow> (Inr (toast\<lparr>duration := (case dur of Num n \<Rightarrow> n | _ \<Rightarrow> duration toast)\<rparr>), w')))
   \<and> (isMMRL (toast_super toast) \<and> truthy (toastBuilder toast)
        \<and> Toast_requireVersion \<le> reportedVersionCode (toast_super toast)
        \<and> typeof gravity = ''number'' \<and> typeof xOffset = ''number'' \<and> typeof yOffset = ''number'' \<longrightarrow>
        Toast_setGravity toast gravity xOffset yOffset w =
          (case callOn (interface (toast_super toast)) ''toastBuilder().setGravity'' [gravity, xOffset, yOffset] w of
             (Inl e, w') \<Rightarrow> (Inl e, w')
           | (Inr r, w') \<Rightarrow> (Inr (toast), w')))
   \<and> (isMMRL (toast_super toast) \<and> truthy (toastBuilder toast)
        \<and> Toast_requireVersion \<le> reportedVersionCode (toast_super toast) \<longrightarrow>
        Toast_show toast w =
          (case callOn (interface (toast_super toast)) ''toastBuilder().show'' [] w of
             (Inl e, w') \<Rightarrow> (Inl e, w')
           | (Inr r, w') \<Rightarrow> (Inr (toast), w')))
   \<and> (isMMRL (toast_super toast) \<and> truthy (toastBuilder toast)
        \<and> Toast_requireVersion \<le> reportedVersionCode (toast_super toast) \<longrightarrow>
        Toast_cancel toast w =
          (case callOn (interface (toast_super toast)) ''toastBuilder().cancel'' [] w of
             (Inl e, w') \<Rightarrow> (Inl e, w')
           | (Inr r, w') \<Rightarrow> (Inr (toast), w'))))"
  by (intro conjI impI;
      (auto simp add: FileSystem_isDirectory_def FileSystem_isFile_def FileSystem_mkdir_def FileSystem_mkdirs_def FileSystem_createNewFile_def FileSystem_renameTo_def FileSystem_copyTo_def FileSystem_canExecute_def FileSystem_canRead_def FileSystem_isHidden_def
        MMRLInterface_requestAdvancedKernelSUAPI_def MMRLInterface_requestFileSystemAPI_def
        Toast_setText_def Toast_setDuration_def Toast_setGravity_def Toast_show_def Toast_cancel_def
        hasRequiredVersion_def versionChecked_def FileSystem_unsupportedWarning_def Let_def
        warned_once warned_twice)?)

theorem version_gate_witness:
  "FileSystem_isDirectory (hostAccessor agreeingHost 33161) ''/data/adb'' newWorld
     = (Inr (Bool False),
        \<lparr>host_state = (), events =
           [ConsoleWarn (newerVersionWarning 33162),
            ConsoleWarn (quoted ''isDirectroy'' @ '' is not supported on this version'')]\<rparr>)
   \<and> FileSystem_isDirectory (hostAccessor agreeingHost 33162) ''/data/adb'' newWorld
     = (Inr (Bool True), \<lparr>host_state = (), events = [HostCall ''isDirectory'' [Str ''/data/adb'']]\<rparr>)"
proof -
  have lo: "isMMRL (hostAccessor agreeingHost 33161)
            \<and> reportedVersionCode (hostAccessor agreeingHost 33161) < advancedFsOperations"
    by (simp add: isMMRL_def hostAccessor_def advancedFsOperations_def)
  have hi: "isMMRL (hostAccessor agreeingHost 33162)
            \<and> advancedFsOperations \<le> reportedVersionCode (hostAccessor agreeingHost 33162)"
    by (simp add: isMMRL_def hostAccessor_def advancedFsOperations_def)
  from version_gate [THEN conjunct1, THEN conjunct1, THEN mp, OF lo]
  have "\<exists>msgs. msgs \<noteq> [] \<and> FileSystem_isDirectory (hostAccessor agreeingHost 33161) ''/data/adb'' newWorld
          = (Inr (Bool False), warned msgs newWorld)" .
  moreover from version_gate [THEN conjunct2, THEN conjunct1, THEN mp, OF hi]
  have "FileSystem_isDirectory (hostAccessor agreeingHost 33162) ''/data/adb'' newWorld
          = callOn (interface (hostAccessor agreeingHost 33162)) ''isDirectory'' [Str ''/data/adb''] newWorld" .
  ultimately show ?thesis
    by (simp add: FileSystem_isDirectory_def FileSystem_unsupportedWarning_def console_warn_def
          hasRequiredVersion_def versionChecked_def advancedFsOperations_def isMMRL_def
          hostAccessor_def callOn_def agreeingHost_def newWorld_def)
qed

text \<open>
  C8, as the code has it. The argument checks come after the guards: when the context is
  the host, the toast builder is there and the host version is at least 33049,
  \<open>setText\<close> throws a \<open>TypeError\<close> for a text that is not a string, \<open>setDuration\<close> a
  \<open>TypeError\<close> for a duration that is not a number and an \<open>Error\<close> for a number other
  than \<open>LENGTH_SHORT = 0\<close> and \<open>LENGTH_LONG = 1\<close>, and \<open>setGravity\<close> a \<open>TypeError\<close> for the
  first of its three arguments that is not a number. Nothing is called on the host and
  nothing is logged.
\<close>

theorem Toast_validation:
  "isMMRL (toast_super toast) \<and> truthy (toastBuilder toast)
   \<and> hasRequiredVersion (toast_super toast) Toast_requireVersion \<longrightarrow>
     (typeof text \<noteq> ''string'' \<longrightarrow>
        Toast_setText toast text w = (Inl (TypeError ''Text must be a string''), w))
   \<and> (typeof dur \<noteq> ''number'' \<longrightarrow>
        Toast_setDuration toast dur w = (Inl (TypeError ''Duration must be a number''), w))
   \<and> (typeof dur = ''number'' \<and> dur \<noteq> Num LENGTH_SHORT \<and> dur \<noteq> Num LENGTH_LONG \<longrightarrow>
        Toast_setDuration toast dur w = (Inl (Error ''Invalid duration''), w))
   \<and> (typeof gravity \<noteq> ''number'' \<longrightarrow>
        Toast_setGravity toast gravity xOffset yOffset w = (Inl (TypeError ''Gravity must be a number''), w))
   \<and> (typeof gravity = ''number'' \<and> typeof xOffset \<noteq> ''number'' \<longrightarrow>
        Toast_setGravity toast gravity xOffset yOffset w = (Inl (TypeError ''X offset must be a number''), w))
   \<and> (typeof gravity = ''number'' \<and> typeof xOffset = ''number'' \<and> typeof yOffset \<noteq> ''number'' \<longrightarrow>
        Toast_setGravity toast gravity xOffset yOffset w = (Inl (TypeError ''Y offset must be a number''), w))
   \<and> LENGTH_SHORT = 0 \<and> LENGTH_LONG = 1"
  by (simp add: Toast_setText_def Toast_setDuration_def Toast_setGravity_def
        LENGTH_SHORT_def LENGTH_LONG_def versionChecked_def Let_def)

theorem Toast_validation_witness:
  "Toast_setText (hostToast agreeingHost 33049) (Num 5) newWorld
     = (Inl (TypeError ''Text must be a string''), newWorld)
   \<and> Toast_setDuration (hostToast agreeingHost 33049) (Str ''long'') newWorld
     = (Inl (TypeError ''Duration must be a number''), newWorld)
   \<and> Toast_setDuration (hostToast agreeingHost 33049) (Num 2) newWorld
     = (Inl (Error ''Invalid duration''), newWorld)
   \<and> Toast_setGravity (hostToast agreeingHost 33049) (Num 17) Null (Num 0) newWorld
     = (Inl (TypeError ''X offset must be a number''), newWorld)"
proof -
  have g: "isMMRL (toast_super (hostToast agreeingHost 33049))
           \<and> truthy (toastBuilder (hostToast agreeingHost 33049))
           \<and> hasRequiredVersion (toast_super (hostToast agreeingHost 33049)) Toast_requireVersion"
    by (simp add: isMMRL_def hostToast_def hostAccessor_def hasRequiredVersion_def
          Toast_requireVersion_def)
  from Toast_validation [THEN mp, OF g, of "Num 5" newWorld "Str ''long''" "Num 17" Null "Num 0"]
       Toast_validation [THEN mp, OF g, of "Num 5" newWorld "Num 2" "Num 17" Null "Num 0"]
  show ?thesis by (simp add: LENGTH_SHORT_def LENGTH_LONG_def)
qed

text \<open>
  C8 as stated fails when a guard stops the method first: outside the host \<open>setText\<close>
  returns normally for a number, and below version 33049 \<open>setDuration\<close> returns normally
  for the number 7, with nothing but the warning of the version check.
\<close>

theorem Toast_setText_guarded_counterexample:
  "typeof (Num 5) \<noteq> ''string''
   \<and> Toast_setText browserToast (Num 5) newWorld = (Inr browserToast, newWorld)
   \<and> Toast_setDuration (hostToast agreeingHost 33048) (Num 7) newWorld
       = (Inr (hostToast agreeingHost 33048),
          \<lparr>host_state = (), events = [ConsoleWarn (newerVersionWarning 33049)]\<rparr>)"
  by (simp add: Toast_setText_def Toast_setDuration_def browserToast_def browserAccessor_def
        isMMRL_def hostToast_def hostAccessor_def hasRequiredVersion_def Toast_requireVersion_def
        versionChecked_def console_warn_def newWorld_def Let_def)

section \<open>Construction of the stream accessors\<close>

lemma matchesFileInputStream_nonempty: "matchesFileInputStream key \<Longrightarrow> key \<noteq> []"
  by (auto simp add: matchesFileInputStream_def)

lemma findInterface_Some: "findInterface win = Some key \<Longrightarrow> key \<noteq> []"
  by (auto simp add: findInterface_def find_Some_iff dest: matchesFileInputStream_nonempty)

lemma findInterface_None:
  "(\<forall>k \<in> set (map fst win). \<not> matchesFileInputStream k) \<Longrightarrow> findInterface win = None"
  by (auto simp add: findInterface_def find_None_iff)

text \<open>
  C7. Neither constructor contains a handler, so what it throws is its result. When no
  global name matches the pattern, \<open>new SuFileInputStream\<close> throws a \<open>ReferenceError\<close>
  and so does \<open>new SuFile\<close>; when a name matches and the host's \<open>open\<close> returns nothing,
  \<open>new SuFileInputStream\<close> throws an \<open>Error\<close>; when \<open>open\<close> itself throws, that exception
  leaves the constructor.
\<close>

theorem constructors_raise:
  "((\<forall>k \<in> set (map fst win). \<not> matchesFileInputStream k) \<longrightarrow>
      SuFileInputStream_new win path
        = Inl (ReferenceError ''Unable to find a interface SuFileInputStream''))
   \<and> (findInterface win = Some key \<and> map_of win key = Some ob \<and> fis_open ob path = Inr None \<longrightarrow>
      SuFileInputStream_new win path = Inl (Error ''Failed to open file input stream''))
   \<and> (findInterface win = Some key \<and> map_of win key = Some ob \<and> fis_open ob path = Inl e \<longrightarrow>
      SuFileInputStream_new win path = Inl e)
   \<and> ((\<forall>k \<in> set (map fst win'). \<not> matchesFileInputStream k) \<longrightarrow>
      SuFile_new win' path = Inl (ReferenceError ''Unable to find a interface SuFile''))"
proof (intro conjI impI)
  assume "\<forall>k \<in> set (map fst win). \<not> matchesFileInputStream k"
  then have "findInterface win = None" by (rule findInterface_None)
  then show "SuFileInputStream_new win path
               = Inl (ReferenceError ''Unable to find a interface SuFileInputStream'')"
    by (simp add: SuFileInputStream_new_def)
next
  assume a: "findInterface win = Some key \<and> map_of win key = Some ob \<and> fis_open ob path = Inr None"
  then have "key \<noteq> []" using findInterface_Some [of win key] by blast
  with a show "SuFileInputStream_new win path = Inl (Error ''Failed to open file input stream'')"
    by (simp add: SuFileInputStream_new_def)
next
  assume a: "findInterface win = Some key \<and> map_of win key = Some ob \<and> fis_open ob path = Inl e"
  then have "key \<noteq> []" using findInterface_Some [of win key] by blast
  with a show "SuFileInputStream_new win path = Inl e"
    by (simp add: SuFileInputStream_new_def)
next
  assume "\<forall>k \<in> set (map fst win'). \<not> matchesFileInputStream k"
  then have "findInterface win' = None" by (rule findInterface_None)
  then show "SuFile_new win' path = Inl (ReferenceError ''Unable to find a interface SuFile'')"
    by (simp add: SuFile_new_def)
qed

theorem constructors_raise_witness:
  "SuFileInputStream_new [(''mmrl'', refusingHost), (''$net_switch'', refusingHost)] ''/sdcard/a.bin''
     = Inl (ReferenceError ''Unable to find a interface SuFileInputStream'')
   \<and> SuFileInputStream_new [(''mmrl'', refusingHost), (''$abFileInputStream'', refusingHost)] ''/sdcard/a.bin''
     = Inl (Error ''Failed to open file input stream'')
   \<and> SuFile_new [(''mmrl'', agreeingHost), (''$net_switch'', agreeingHost)] ''/sdcard/a.bin''
     = Inl (ReferenceError ''Unable to find a interface SuFile'')"
proof -
  have m1: "\<not> matchesFileInputStream ''mmrl''" and m2: "\<not> matchesFileInputStream ''$net_switch''"
    and m3: "matchesFileInputStream ''$abFileInputStream''"
    by (simp_all add: matchesFileInputStream_def matchHere_def isWordChar_def isLineTerminator_def)
  have a: "\<forall>k \<in> set (map fst [(''mmrl'', refusingHost), (''$net_switch'', refusingHost)]). \<not> matchesFileInputStream k"
    using m1 m2 by simp
  have a': "\<forall>k \<in> set (map fst [(''mmrl'', agreeingHost), (''$net_switch'', agreeingHost)]). \<not> matchesFileInputStream k"
    using m1 m2 by simp
  have b: "findInterface [(''mmrl'', refusingHost), (''$abFileInputStream'', refusingHost)] = Some ''$abFileInputStream''
           \<and> map_of [(''mmrl'', refusingHost), (''$abFileInputStream'', refusingHost)] ''$abFileInputStream'' = Some refusingHost
           \<and> fis_open refusingHost ''/sdcard/a.bin'' = Inr None"
    using m1 m3 by (simp add: findInterface_def refusingHost_def)
  from constructors_raise [THEN conjunct1, THEN mp, OF a]
       constructors_raise [THEN conjunct2, THEN conjunct1, THEN mp, OF b]
       constructors_raise [THEN conjunct2, THEN conjunct2, THEN conjunct2, THEN mp, OF a']
  show ?thesis by simp
qed

section \<open>The streaming read\<close>

lemma concat_chunksOf: "0 < c \<Longrightarrow> concat (chunksOf c xs) = xs"
proof (induction c xs rule: chunksOf.induct)
  case (1 c xs)
  then show ?case by (subst chunksOf.simps) auto
qed

lemma length_chunksOf: "0 < c \<Longrightarrow> length (chunksOf c xs) = (length xs + c - 1) div c"
proof (induction c xs rule: chunksOf.induct)
  case (1 c xs)
  show ?case
  proof (cases "xs = []")
    case True
    with 1 show ?thesis by (subst chunksOf.simps) simp
  next
    case False
    define k where "k = length xs - 1"
    have n: "length xs = Suc k" using False by (simp add: k_def)
    have ih: "length (chunksOf c (drop c xs)) = (length (drop c xs) + c - 1) div c"
      using 1 False by simp
    have unfold: "length (chunksOf c xs) = Suc (length (chunksOf c (drop c xs)))"
      using False "1.prems" by (subst chunksOf.simps) simp
    have "length xs + c - 1 = k + c" by (simp add: n)
    moreover have "(k + c) div c = Suc (k div c)"
      using "1.prems" by (metis Suc_eq_plus1 div_add_self2 not_gr_zero)
    ultimately have total: "(length xs + c - 1) div c = Suc (k div c)"
      by (simp only:)
    have rest: "(length (drop c xs) + c - 1) div c = k div c"
    proof (cases "c \<le> length xs")
      case True
      then have "length (drop c xs) + c - 1 = k" by (simp add: n)
      then show ?thesis by simp
    next
      case False
      then have "length (drop c xs) + c - 1 = c - 1" and "k < c" by (simp_all add: n)
      then show ?thesis using "1.prems" by simp
    qed
    show ?thesis by (simp only: unfold ih rest total)
  qed
qed

lemma run_Cons: "run st (i # inputs) = run (step st i) inputs"
  by (simp add: run_def)

lemma run_pulls_settled: "f_stream st \<noteq> Some Readable \<Longrightarrow> run st (replicate n Pull) = st"
  by (induction n) (simp_all add: run_def)

lemma Uint8Array_enc: "(\<forall>b. word_of_int (enc b) = b) \<Longrightarrow> Uint8Array (map enc bs) = bs"
  by (simp add: Uint8Array_def map_idI)

lemma closeCount_append:
  "f_input st = Some inp \<Longrightarrow> f_input st' = Some inp' \<Longrightarrow> sis_calls inp' = sis_calls inp @ es \<Longrightarrow>
   closeCount st' = closeCount st + length (filter (\<lambda>e. e = HostCall ''close'' []) es)"
  by (simp add: closeCount_def handleCalls_def)

lemma pull_more:
  assumes "f_input st = Some inp" "sis_host inp = fileHost enc content" "sis_is inp = (remaining, True)"
    and "remaining \<noteq> []" "0 < f_chunkSize st" "\<forall>b. word_of_int (enc b) = b"
  shows "pull st = st\<lparr>f_input := Some (inp\<lparr>sis_is := (drop (nat (f_chunkSize st)) remaining, True),
                           sis_calls := sis_calls inp @ [HostCall ''readChunk'' [Num (f_chunkSize st)]]\<rparr>),
                       f_enqueued := f_enqueued st @ [take (nat (f_chunkSize st)) remaining]\<rparr>"
  using assms
  by (simp add: pull_def SuFileInputStream_readChunk_def fileHost_def Uint8Array_enc)

lemma pull_end:
  assumes "f_input st = Some inp" "sis_host inp = fileHost enc content" "sis_is inp = ([], True)"
  shows "pull st = st\<lparr>f_input := Some (inp\<lparr>sis_is := ([], False),
                           sis_calls := sis_calls inp @ [HostCall ''readChunk'' [Num (f_chunkSize st)],
                                                          HostCall ''close'' []]\<rparr>),
                       f_stream := Some Closed, f_listening := False\<rparr>"
  using assms
  by (simp add: pull_def SuFileInputStream_readChunk_def fileHost_def pullDone_def cleanup_def
        closeInput_def SuFileInputStream_close_def)

lemma pulls_drain:
  assumes enc: "\<forall>b. word_of_int (enc b) = b"
  shows "0 < c \<Longrightarrow> f_chunkSize st = int c \<Longrightarrow> f_stream st = Some Readable \<Longrightarrow>
         f_input st = Some inp \<Longrightarrow> sis_host inp = fileHost enc content \<Longrightarrow>
         sis_is inp = (remaining, True) \<Longrightarrow> length (chunksOf c remaining) < n \<Longrightarrow>
         f_stream (run st (replicate n Pull)) = Some Closed
         \<and> f_enqueued (run st (replicate n Pull)) = f_enqueued st @ chunksOf c remaining
         \<and> closeCount (run st (replicate n Pull)) = Suc (closeCount st)
         \<and> f_promise (run st (replicate n Pull)) = f_promise st"
proof (induction c remaining arbitrary: st inp n rule: chunksOf.induct)
  case (1 c remaining)
  from "1.prems"(7) obtain m where n: "n = Suc m" by (cases n) auto
  have run1: "run st (replicate n Pull) = run (pull st) (replicate m Pull)"
    using n "1.prems"(3) by (simp add: run_Cons)
  show ?case
  proof (cases "remaining = []")
    case True
    have p: "pull st = st\<lparr>f_input := Some (inp\<lparr>sis_is := ([], False),
                           sis_calls := sis_calls inp @ [HostCall ''readChunk'' [Num (f_chunkSize st)],
                                                          HostCall ''close'' []]\<rparr>),
                       f_stream := Some Closed, f_listening := False\<rparr>"
      using pull_end [of st inp enc content] "1.prems" True by simp
    have settled: "run (pull st) (replicate m Pull) = pull st"
      by (rule run_pulls_settled) (simp add: p)
    have fin: "run st (replicate n Pull) = pull st"
      using run1 settled by simp
    have cc: "closeCount (pull st) = Suc (closeCount st)"
      using closeCount_append [of st inp "pull st" _ "[HostCall ''readChunk'' [Num (f_chunkSize st)], HostCall ''close'' []]"]
        "1.prems"(4) by (simp add: p)
    have s1: "f_stream (pull st) = Some Closed" and s2: "f_enqueued (pull st) = f_enqueued st"
      and s3: "f_promise (pull st) = f_promise st"
      by (simp_all add: p)
    have nil: "chunksOf c remaining = []"
      using True by (subst chunksOf.simps) simp
    show ?thesis
      unfolding fin using s1 s2 s3 cc nil by simp
  next
    case False
    let ?inp' = "inp\<lparr>sis_is := (drop (nat (f_chunkSize st)) remaining, True),
                     sis_calls := sis_calls inp @ [HostCall ''readChunk'' [Num (f_chunkSize st)]]\<rparr>"
    have p: "pull st = st\<lparr>f_input := Some ?inp',
                          f_enqueued := f_enqueued st @ [take (nat (f_chunkSize st)) remaining]\<rparr>"
      using pull_more [of st inp enc content remaining] "1.prems" False enc by simp
    have unfold: "chunksOf c remaining = take c remaining # chunksOf c (drop c remaining)"
      using False "1.prems"(1) by (subst chunksOf.simps) simp
    have len: "length (chunksOf c (drop c remaining)) < m"
      using "1.prems"(7) n unfold by simp
    have ih: "f_stream (run (pull st) (replicate m Pull)) = Some Closed
         \<and> f_enqueued (run (pull st) (replicate m Pull)) = f_enqueued (pull st) @ chunksOf c (drop c remaining)
         \<and> closeCount (run (pull st) (replicate m Pull)) = Suc (closeCount (pull st))
         \<and> f_promise (run (pull st) (replicate m Pull)) = f_promise (pull st)"
    proof (rule "1.IH" [of "pull st" ?inp' m])
      show "\<not> (c = 0 \<or> remaining = [])" using False "1.prems"(1) by simp
      show "0 < c" by (rule "1.prems"(1))
      show "f_chunkSize (pull st) = int c" using "1.prems"(2) by (simp add: p)
      show "f_stream (pull st) = Some Readable" using "1.prems"(3) by (simp add: p)
      show "f_input (pull st) = Some ?inp'" by (simp add: p)
      show "sis_host ?inp' = fileHost enc content" using "1.prems"(5) by simp
      show "sis_is ?inp' = (drop c remaining, True)" using "1.prems"(2) by simp
      show "length (chunksOf c (drop c remaining)) < m" by (rule len)
    qed
    have cc: "closeCount (pull st) = closeCount st"
      using closeCount_append [of st inp "pull st" ?inp' "[HostCall ''readChunk'' [Num (f_chunkSize st)]]"]
        "1.prems"(4) by (simp add: p)
    have enq: "f_enqueued (pull st) = f_enqueued st @ [take c remaining]"
      using "1.prems"(2) by (simp add: p)
    have pr: "f_promise (pull st) = f_promise st" by (simp add: p)
    show ?thesis using ih cc enq pr unfold by (simp add: run1)
  qed
qed

lemma closeInput_calls:
  "f_input st = Some inp \<Longrightarrow>
   \<exists>inp'. f_input (closeInput msg st) = Some inp'
          \<and> sis_calls inp' = sis_calls inp @ [HostCall ''close'' []]
          \<and> f_stream (closeInput msg st) = f_stream st"
  by (auto simp add: closeInput_def SuFileInputStream_close_def split: prod.splits option.splits)

lemma cleanup_closes:
  "f_input st = Some inp \<Longrightarrow>
   f_input (cleanup st) \<noteq> None \<and> closeCount (cleanup st) = Suc (closeCount st)
   \<and> f_stream (cleanup st) = f_stream st"
proof -
  assume a: "f_input st = Some inp"
  then have "f_input (st\<lparr>f_listening := False\<rparr>) = Some inp" by simp
  from closeInput_calls [OF this, of "''Error during cleanup:''"]
  obtain inp' where i: "f_input (cleanup st) = Some inp'"
    and c: "sis_calls inp' = sis_calls inp @ [HostCall ''close'' []]"
    and s: "f_stream (cleanup st) = f_stream st"
    by (auto simp add: cleanup_def)
  from closeCount_append [OF a i c] i s show ?thesis by simp
qed

lemma step_without_abort:
  assumes "closedOnce st" "i \<noteq> Abort"
  shows "closedOnce (step st i)"
proof (cases "f_stream st = Some Readable")
  case False
  with assms show ?thesis by (cases i) simp_all
next
  case True
  with assms(1) obtain inp where inp: "f_input st = Some inp" and zero: "closeCount st = 0"
    by (auto simp add: closedOnce_def)
  show ?thesis
  proof (cases i)
    case Abort
    with assms(2) show ?thesis by simp
  next
    case Cancel
    have "f_input (st\<lparr>f_stream := Some Closed\<rparr>) = Some inp" using inp by simp
    from cleanup_closes [OF this] zero Cancel True show ?thesis
      by (simp add: closedOnce_def closeCount_def handleCalls_def)
  next
    case Pull
    obtain r inp' where rc: "SuFileInputStream_readChunk inp (f_chunkSize st) = (r, inp')"
      by (cases "SuFileInputStream_readChunk inp (f_chunkSize st)")
    then have calls: "sis_calls inp' = sis_calls inp @ [HostCall ''readChunk'' [Num (f_chunkSize st)]]"
      by (auto simp add: SuFileInputStream_readChunk_def split: prod.splits)
    let ?st1 = "st\<lparr>f_input := Some inp'\<rparr>"
    have i1: "f_input ?st1 = Some inp'" by simp
    have z1: "closeCount ?st1 = 0"
      using closeCount_append [OF inp i1 calls] zero by simp
    have ended: "closedOnce (pullDone ?st1)"
    proof -
      have "f_input (?st1\<lparr>f_stream := Some Closed\<rparr>) = Some inp'" by simp
      from cleanup_closes [OF this] z1 show ?thesis
        by (simp add: closedOnce_def pullDone_def closeCount_def handleCalls_def)
    qed
    have failed: "closedOnce (pullFailed e ?st1)" for e
      using cleanup_closes [OF i1] z1
      by (simp add: closedOnce_def pullFailed_def settle_def closeCount_def handleCalls_def)
    have more: "closedOnce (?st1\<lparr>f_enqueued := f_enqueued st @ [Uint8Array chunk]\<rparr>)" for chunk
      using z1 True by (simp add: closedOnce_def closeCount_def handleCalls_def)
    show ?thesis
      using Pull True inp rc ended failed more
      by (simp add: pull_def split: sum.splits chunk_data.splits)
  qed
qed

lemma close_once_without_abort:
  "closedOnce st \<Longrightarrow> Abort \<notin> set inputs \<Longrightarrow> closedOnce (run st inputs)"
proof (induction inputs arbitrary: st)
  case Nil
  then show ?case by (simp add: run_def)
next
  case (Cons i inputs)
  then show ?case using step_without_abort [of st i] by (auto simp add: run_Cons)
qed

lemma abort_leaves_stream_readable: "f_stream (step st Abort) = f_stream st"
  by (simp add: abortHandler_def settle_def closeInput_def SuFileInputStream_close_def
        split: option.splits prod.splits)

lemma fetch_opened:
  assumes "findInterface win = Some key" "map_of win key = Some ob" "fis_open ob path = Inr (Some h)"
    and "fo_signal options \<noteq> Some True"
  shows "fetch win path options =
           \<lparr>f_input = Some \<lparr>sis_path = path, sis_interface = key, sis_host = ob,
                              sis_is = h, sis_calls = []\<rparr>,
            f_chunkSize = mergedChunkSize options, f_hasSignal = (fo_signal options \<noteq> None),
            f_listening = (fo_signal options \<noteq> None), f_aborted = False, f_promise = Resolved,
            f_stream = Some Readable, f_enqueued = [], f_console = []\<rparr>"
proof -
  have "key \<noteq> []" using assms(1) by (rule findInterface_Some)
  then have "SuFileInputStream_new win path =
               Inr \<lparr>sis_path = path, sis_interface = key, sis_host = ob, sis_is = h, sis_calls = []\<rparr>"
    using assms(1-3) by (simp add: SuFileInputStream_new_def)
  then show ?thesis using assms(4) by (simp add: fetch_def Let_def settle_def)
qed

text \<open>
  C2. The host serves a file of \<open>N\<close> bytes: each \<open>readChunk\<close> returns the next
  \<open>min(C, remaining)\<close> bytes, written as integers that \<open>Uint8Array\<close> maps back to the
  bytes, and \<open>null\<close> at the end. For a chunk size \<open>C > 0\<close> and a signal that is not
  aborted, once the stream has pulled more than \<open>ceil(N/C)\<close> times it is closed, and it
  has enqueued exactly \<open>ceil(N/C)\<close> chunks whose concatenation is the file. The promise
  is resolved and the handle has been closed once.
\<close>

theorem fetch_yields_file:
  "0 < C \<and> (\<forall>b. word_of_int (enc b) = b)
   \<and> findInterface win = Some key \<and> map_of win key = Some (fileHost enc content)
   \<and> sig \<noteq> Some True \<and> (length content + nat C - 1) div nat C < n \<longrightarrow>
     (let st = run (fetch win path \<lparr>fo_chunkSize = Some C, fo_signal = sig\<rparr>) (replicate n Pull)
      in f_promise st = Resolved \<and> f_stream st = Some Closed
         \<and> length (f_enqueued st) = (length content + nat C - 1) div nat C
         \<and> concat (f_enqueued st) = content
         \<and> closeCount st = 1)"
proof
  assume a: "0 < C \<and> (\<forall>b. word_of_int (enc b) = b)
   \<and> findInterface win = Some key \<and> map_of win key = Some (fileHost enc content)
   \<and> sig \<noteq> Some True \<and> (length content + nat C - 1) div nat C < n"
  let ?options = "\<lparr>fo_chunkSize = Some C, fo_signal = sig\<rparr>"
  let ?inp = "\<lparr>sis_path = path, sis_interface = key, sis_host = fileHost enc content,
               sis_is = (content, True), sis_calls = []\<rparr>"
  let ?init = "fetch win path ?options"
  have opened: "fis_open (fileHost enc content) path = Inr (Some (content, True))"
    by (simp add: fileHost_def)
  have st0: "?init = \<lparr>f_input = Some ?inp,
            f_chunkSize = mergedChunkSize ?options, f_hasSignal = (fo_signal ?options \<noteq> None),
            f_listening = (fo_signal ?options \<noteq> None), f_aborted = False, f_promise = Resolved,
            f_stream = Some Readable, f_enqueued = [], f_console = []\<rparr>"
  proof (rule fetch_opened)
    from a show "findInterface win = Some key" by (elim conjE)
    from a show "map_of win key = Some (fileHost enc content)" by (elim conjE)
    show "fis_open (fileHost enc content) path = Inr (Some (content, True))" by (rule opened)
    from a have "sig \<noteq> Some True" by (elim conjE)
    then show "fo_signal ?options \<noteq> Some True" by simp
  qed
  from a have pos: "0 < C" by (elim conjE)
  from a have many: "(length content + nat C - 1) div nat C < n" by (elim conjE)
  have c: "0 < nat C" using pos by simp
  have cs: "f_chunkSize ?init = int (nat C)"
    using pos by (simp add: st0 mergedChunkSize_def)
  have len: "length (chunksOf (nat C) content) < n"
    unfolding length_chunksOf [OF c] by (rule many)
  from a have enc: "\<forall>b. word_of_int (enc b) = b" by (elim conjE)
  have drained: "f_stream (run ?init (replicate n Pull)) = Some Closed
         \<and> f_enqueued (run ?init (replicate n Pull)) = f_enqueued ?init @ chunksOf (nat C) content
         \<and> closeCount (run ?init (replicate n Pull)) = Suc (closeCount ?init)
         \<and> f_promise (run ?init (replicate n Pull)) = f_promise ?init"
  proof (rule pulls_drain [OF enc c cs, of ?inp content content n])
    show "f_stream ?init = Some Readable" by (simp add: st0)
    show "f_input ?init = Some ?inp" by (simp add: st0)
    show "sis_host ?inp = fileHost enc content" by simp
    show "sis_is ?inp = (content, True)" by simp
    show "length (chunksOf (nat C) content) < n" by (rule len)
  qed
  have init: "f_enqueued ?init = []" "closeCount ?init = 0" "f_promise ?init = Resolved"
    by (simp_all add: st0 closeCount_def handleCalls_def)
  let ?final = "run ?init (replicate n Pull)"
  have r1: "f_promise ?final = Resolved" using drained init(3) by (simp only:)
  have r2: "f_stream ?final = Some Closed" using drained by (simp only:)
  have r3: "f_enqueued ?final = chunksOf (nat C) content"
    using drained init(1) by (simp only: append_Nil)
  have r4: "closeCount ?final = 1" using drained init(2) by (simp only: One_nat_def)
  have r5: "length (f_enqueued ?final) = (length content + nat C - 1) div nat C"
    unfolding r3 using c by (rule length_chunksOf)
  have r6: "concat (f_enqueued ?final) = content"
    unfolding r3 using c by (rule concat_chunksOf)
  show "let st = run ?init (replicate n Pull)
      in f_promise st = Resolved \<and> f_stream st = Some Closed
         \<and> length (f_enqueued st) = (length content + nat C - 1) div nat C
         \<and> concat (f_enqueued st) = content
         \<and> closeCount st = 1"
    unfolding Let_def using r1 r2 r5 r6 r4 by (intro conjI)
qed

lemma fiveBytesWindow_found:
  "findInterface fiveBytesWindow = Some ''$mmFileInputStream''"
  by (simp add: fiveBytesWindow_def findInterface_def matchesFileInputStream_def matchHere_def
        isWordChar_def isLineTerminator_def)

theorem fetch_yields_file_witness:
  "(let st = run (fetch fiveBytesWindow ''/sdcard/f.bin'' \<lparr>fo_chunkSize = Some 2, fo_signal = None\<rparr>)
               (replicate 4 Pull)
    in f_promise st = Resolved \<and> f_stream st = Some Closed
       \<and> length (f_enqueued st) = 3 \<and> concat (f_enqueued st) = fiveBytes \<and> closeCount st = 1)"
proof -
  have h: "0 < (2::int) \<and> (\<forall>b::8 word. word_of_int (sint b) = b)
     \<and> findInterface fiveBytesWindow = Some ''$mmFileInputStream''
     \<and> map_of fiveBytesWindow ''$mmFileInputStream'' = Some (fileHost sint fiveBytes)
     \<and> (None :: bool option) \<noteq> Some True \<and> (length fiveBytes + nat 2 - 1) div nat 2 < 4"
    by (simp add: fiveBytesWindow_found) (simp add: fiveBytesWindow_def fiveBytes_def)
  have l: "(length fiveBytes + nat 2 - 1) div nat 2 = 3" by (simp add: fiveBytes_def)
  from fetch_yields_file [THEN mp, OF h, of "''/sdcard/f.bin''"] l
  show ?thesis by (simp add: Let_def)
qed

text \<open>
  Where the handle is closed exactly once: in every run without an abort after the
  start, whether the stream ends by the end of the data, by a failed read or by the
  consumer's \<open>cancel\<close>, and when the signal is already aborted at the call.
\<close>

lemma fetch_closes_once_without_abort:
  assumes "findInterface win = Some key" "map_of win key = Some ob" "fis_open ob path = Inr (Some h)"
    and "fo_signal options \<noteq> Some True" "Abort \<notin> set inputs"
  shows "closedOnce (run (fetch win path options) inputs)"
proof -
  have "closedOnce (fetch win path options)"
    unfolding fetch_opened [OF assms(1-4)]
    by (simp add: closedOnce_def closeCount_def handleCalls_def)
  then show ?thesis using assms(5) by (rule close_once_without_abort)
qed

lemma fetch_aborted_at_start:
  assumes "findInterface win = Some key" "map_of win key = Some ob" "fis_open ob path = Inr (Some h)"
    and "fo_signal options = Some True"
  shows "f_stream (run (fetch win path options) inputs) = None
         \<and> closeCount (run (fetch win path options) inputs) = 1
         \<and> f_promise (run (fetch win path options) inputs)
             = Rejected (AbortError ''The operation was aborted.'')"
proof -
  have "key \<noteq> []" using assms(1) by (rule findInterface_Some)
  then have new: "SuFileInputStream_new win path =
               Inr \<lparr>sis_path = path, sis_interface = key, sis_host = ob, sis_is = h, sis_calls = []\<rparr>"
    using assms(1-3) by (simp add: SuFileInputStream_new_def)
  let ?st = "fetch win path options"
  have st: "f_stream ?st = None \<and> closeCount ?st = 1 \<and> f_aborted ?st
            \<and> f_promise ?st = Rejected (AbortError ''The operation was aborted.'')"
    using assms(4) new
    by (simp add: fetch_def Let_def abortHandler_def settle_def closeInput_def
          SuFileInputStream_close_def closeCount_def handleCalls_def split: prod.splits option.splits)
  have idle: "step s i = s" if "f_stream s = None" "f_aborted s" for s :: "'a fetch_state" and i
    using that by (cases i) simp_all
  have "run s inputs = s" if "f_stream s = None" "f_aborted s" for s :: "'a fetch_state"
    using that by (induction inputs) (simp_all add: run_def idle)
  then have "run ?st inputs = ?st" using st by blast
  then show ?thesis using st by simp
qed

text \<open>
  C3 at the input on which the code departs from it: a fetch with a signal, one pull,
  the abort, one more pull. The pull after the abort calls \<open>readChunk\<close> on the handle the
  abort has closed, and the failure of that read closes the handle a second time.
\<close>

theorem abort_then_pull_reads_and_closes_again:
  "handleCalls (run (fetch fiveBytesWindow ''/sdcard/f.bin'' \<lparr>fo_chunkSize = Some 2, fo_signal = Some False\<rparr>)
                   [Pull, Abort, Pull])
     = [HostCall ''readChunk'' [Num 2], HostCall ''close'' [],
        HostCall ''readChunk'' [Num 2], HostCall ''close'' []]
   \<and> closeCount (run (fetch fiveBytesWindow ''/sdcard/f.bin'' \<lparr>fo_chunkSize = Some 2, fo_signal = Some False\<rparr>)
                   [Pull, Abort, Pull]) = 2"
proof -
  have op: "fis_open (fileHost sint fiveBytes) ''/sdcard/f.bin'' = Inr (Some (fiveBytes, True))"
    by (simp add: fileHost_def)
  have m: "map_of fiveBytesWindow ''$mmFileInputStream'' = Some (fileHost sint fiveBytes)"
    by (simp add: fiveBytesWindow_def)
  have st0: "fetch fiveBytesWindow ''/sdcard/f.bin'' \<lparr>fo_chunkSize = Some 2, fo_signal = Some False\<rparr> =
           \<lparr>f_input = Some \<lparr>sis_path = ''/sdcard/f.bin'', sis_interface = ''$mmFileInputStream'',
                              sis_host = fileHost sint fiveBytes,
                              sis_is = (fiveBytes, True), sis_calls = []\<rparr>,
            f_chunkSize = 2, f_hasSignal = True,
            f_listening = True, f_aborted = False, f_promise = Resolved,
            f_stream = Some Readable, f_enqueued = [], f_console = []\<rparr>"
    using fetch_opened [OF fiveBytesWindow_found m op, of "\<lparr>fo_chunkSize = Some 2, fo_signal = Some False\<rparr>"]
    by (simp add: mergedChunkSize_def)
  show ?thesis
    unfolding st0
    by (simp add: run_def pull_def SuFileInputStream_readChunk_def fileHost_def fiveBytes_def
          abortHandler_def closeInput_def SuFileInputStream_close_def settle_def pullFailed_def
          cleanup_def handleCalls_def closeCount_def)
qed

section \<open>The configuration accessor\<close>






























text \<open>
  Nor can another condition be dropped. For the key \<open>prototype\<close>, for a document that is
  a number, and for the key \<open>[]]\<close>, whose path is empty, \<open>set\<close> leaves the document as it
  is, writes it, and \<open>get\<close> returns the default. For the key \<open>list.length\<close> and the
  value \<open>-1\<close> on a document whose \<open>list\<close> is an array, the library call throws a
  \<open>RangeError\<close>: \<open>set\<close> writes nothing, and \<open>get\<close> returns the length \<open>0\<close>.
\<close>

lemma Config_set_unsafe_key:
  "map_option (\<lambda>(r, this', w'). (r, cfg_config this', host_state w'))
     (Config_set (memoryConfig (Obj [(''theme'', Str ''dark'')])) ''prototype'' (Str ''x'') memoryWorld)
     = Some (Inr Undefined, Obj [(''theme'', Str ''dark'')],
             [(''/data/adb/.config/net-switch/config.json'',
               textLines [''{'', ''  '' @ doubleQuoted ''theme'' @ '': '' @ doubleQuoted ''dark'', ''}''])])
   \<and> Config_get (memoryConfig (Obj [(''theme'', Str ''dark'')])) ''prototype'' (Str ''none'')
       = Some (Str ''none'')"
  by code_simp

lemma Config_set_invalid_length:
  "map_option (\<lambda>(r, this', w'). (r, cfg_config this', host_state w'))
     (Config_set (memoryConfig (Obj [(''list'', Arr [])])) ''list.length'' (Num (- 1)) memoryWorld)
     = Some (Inl (RangeError ''Invalid array length''), Obj [(''list'', Arr [])], [])
   \<and> Config_get (memoryConfig (Obj [(''list'', Arr [])])) ''list.length'' (Str ''none'')
       = Some (Num 0)"
  by code_simp

lemma Config_set_not_an_object:
  "map_option (\<lambda>(r, this', w'). (r, cfg_config this', host_state w'))
     (Config_set (memoryConfig (Num 5)) ''a'' (Str ''x'') memoryWorld)
     = Some (Inr Undefined, Num 5, [(''/data/adb/.config/net-switch/config.json'', ''5'')])
   \<and> Config_get (memoryConfig (Num 5)) ''a'' (Str ''none'') = Some (Str ''none'')"
  by code_simp

lemma Config_set_empty_path:
  "castPath ''[]]'' (Obj []) = []
   \<and> map_option (\<lambda>(r, this', w'). (r, cfg_config this', host_state w'))
        (Config_set (memoryConfig (Obj [])) ''[]]'' (Str ''x'') memoryWorld)
     = Some (Inr Undefined, Obj [], [(''/data/adb/.config/net-switch/config.json'', ''{}'')])
   \<and> Config_get (memoryConfig (Obj [])) ''[]]'' (Str ''none'') = Some (Str ''none'')"
  by code_simp

text \<open>
  The library call of \<open>set\<close> stays inside the model, and does not throw, on a document
  of plain objects for a key none of whose segments is an array index or the name of a
  member of \<open>Object.prototype\<close>.
\<close>

lemma plainDocument_newValue:
  "plainDocument (Obj ps) \<Longrightarrow> getProp (Obj ps) key = Some objValue \<Longrightarrow> \<not> isIndex next
   \<Longrightarrow> \<exists>qs. newValue objValue next = Obj qs \<and> plainDocument (Obj qs)"
proof -
  assume p: "plainDocument (Obj ps)" and g: "getProp (Obj ps) key = Some objValue"
    and n: "\<not> isIndex next"
  show ?thesis
  proof (cases "isObject objValue")
    case False
    with n show ?thesis by (simp add: newValue_def)
  next
    case True
    then have "objValue \<noteq> Undefined" by auto
    with g have "map_of ps key = Some objValue" by (auto split: option.splits if_splits)
    then have "(key, objValue) \<in> set ps" by (rule map_of_SomeD)
    with p have "plainDocument objValue" by auto
    with True show ?thesis by (cases objValue) (auto simp add: newValue_def)
  qed
qed

lemma baseSetFrom_plainDocument:
  "plainDocument (Obj ps)
   \<Longrightarrow> list_all (\<lambda>segment. segment \<notin> set objectPrototypeNames \<and> \<not> isIndex segment) path
   \<Longrightarrow> \<exists>qs. baseSetFrom (Obj ps) path v = Some (None, Obj qs)"
proof (induction path arbitrary: ps)
  case Nil
  then show ?case by simp
next
  case (Cons key rest)
  show ?case
  proof (cases "unsafeKey key \<or> rest = []")
    case True
    then show ?thesis by auto
  next
    case False
    from Cons.prems(2) have k: "key \<notin> set objectPrototypeNames" by simp
    then have "\<exists>objValue. getProp (Obj ps) key = Some objValue"
      by (cases "map_of ps key") simp_all
    then obtain objValue where g: "getProp (Obj ps) key = Some objValue" ..
    from False Cons.prems(2) have n: "\<not> isIndex (hd rest)" by (cases rest) auto
    from plainDocument_newValue [OF Cons.prems(1) g n] obtain qs
      where nv: "newValue objValue (hd rest) = Obj qs" and pq: "plainDocument (Obj qs)" by blast
    from Cons.IH [OF pq] Cons.prems(2) obtain rs
      where r: "baseSetFrom (Obj qs) rest v = Some (None, Obj rs)" by auto
    show ?thesis using False g nv r by simp
  qed
qed

lemma lodash_set_plainDocument:
  "plainDocument (Obj ps)
   \<Longrightarrow> list_all (\<lambda>segment. segment \<notin> set objectPrototypeNames \<and> \<not> isIndex segment)
         (castPath key (Obj ps))
   \<Longrightarrow> \<exists>changed. lodash_set (Obj ps) key v = Some (None, changed)"
  using baseSetFrom_plainDocument [of ps "castPath key (Obj ps)" v]
  by (auto simp add: lodash_set_def)

end
